theory Spec2Isabelle
  imports Complex_Main "HOL-Library.Product_Lexorder" "HOL-Library.Char_ord"
    "HOL-Library.List_Lexorder" "HOL-Library.Sublist" "HOL-Library.Multiset"
begin

section \<open>Values exchanged with the caller, the AI service and PostgreSQL\<close>

text \<open>
  The code is the recommendation routes of the API gateway (\<open>recommendationsRoutes\<close>
  with \<open>generateRecommendationReason\<close> and \<open>getFallbackRecommendations\<close>) and the
  browse listing of the laptops routes (\<open>laptopsRoutes\<close>). JavaScript numbers that
  come out of a JSON body are finite and are modelled by their exact value, a rational,
  and so are SQL \<open>DECIMAL\<close> values (which \<open>pg\<close> hands to JavaScript as their decimal
  text; the model keeps the value). SQL \<open>INTEGER\<close> columns are \<open>int\<close>; a column that
  may be \<open>NULL\<close> and a property that may be \<open>undefined\<close> are \<open>option\<close>s; a UUID is
  the text of the UUID.
\<close>

type_synonym uuid = string

datatype json =
    JNull
  | JBool bool
  | JNum rat
  | JStr string
  | JArr "json list"
  | JObj "(string \<times> json) list"

datatype usage =
  Gaming | Programming | Design | Video_Editing | Office | Student | General | Workstation

datatype gpu_class = Integrated | Dedicated | Hybrid

record preferences =
  min_budget :: "rat option"
  max_budget :: "rat option"
  primary_usage :: usage
  min_ram_gb :: "rat option"
  min_storage_gb :: "rat option"
  preferred_gpu_type :: "gpu_class option"
  min_display_size :: "rat option"
  max_weight_kg :: "rat option"
  prefer_thin_and_light :: "bool option"

record body =
  user_preferences :: preferences
  top_k :: int

text \<open>
  A row object as \<open>pg\<close> hands it to the route: one property per selected column. The
  two recommendation queries select different columns, and the code reads a row with
  property accesses that give \<open>undefined\<close> for a column that was not selected, so a
  row is one record whose every property may be missing (\<open>None\<close> also stands for SQL
  \<open>NULL\<close>: both fail every test the code makes in the same way).
\<close>

record laptop_row =
  row_model_id :: "uuid option"
  row_spec_id :: "uuid option"
  row_model_name :: "string option"
  row_series :: "string option"
  row_short_description :: "string option"
  row_product_image_url :: "string option"
  row_brand_name :: "string option"
  row_brand_slug :: "string option"
  row_processor_model :: "string option"
  row_ram_gb :: "int option"
  row_storage_capacity_gb :: "int option"
  row_gpu_type :: "string option"
  row_gpu_model :: "string option"
  row_display_size_inches :: "rat option"
  row_min_price :: "rat option"
  row_available_from :: "int option"
  row_relevance_score :: "rat option"

text \<open>
  How PostgreSQL reads a JavaScript value bound to a \<open>uuid\<close> parameter: \<open>undefined\<close>
  and \<open>null\<close> are sent as \<open>NULL\<close>, a text in UUID syntax is that UUID, anything else
  makes the query fail.
\<close>

datatype uuid_param = Uuid_Null | Uuid_Malformed | Uuid uuid

text \<open>
  One element of the returned \<open>recommendations\<close> array: \<open>{...rec, laptop}\<close> on the
  primary path, \<open>{spec_id, relevance_score, laptop, matched_features}\<close> on the
  fallback path. The route reads \<open>spec_id\<close>, \<open>relevance_score\<close>, \<open>laptop\<close> and
  \<open>matched_features\<close>; \<open>other_properties\<close> are the properties under any other name,
  which the spread \<open>...rec\<close> copies as the AI service sent them.
\<close>

record recommendation =
  spec_id :: uuid_param
  relevance_score :: "rat option"
  laptop :: "laptop_row option"
  matched_features :: "string list option"
  other_properties :: "(string \<times> json) list"

section \<open>JavaScript helpers\<close>

text \<open>Truthiness of a number that may be undefined: \<open>undefined\<close> and \<open>0\<close> are falsy
  (the schema's \<open>z.number()\<close> has already excluded \<open>NaN\<close>).\<close>

definition truthy_number :: "rat option \<Rightarrow> bool" where
  "truthy_number v = (case v of None \<Rightarrow> False | Some x \<Rightarrow> x \<noteq> 0)"

definition truthy_bool :: "bool option \<Rightarrow> bool" where
  "truthy_bool v = (case v of None \<Rightarrow> False | Some b \<Rightarrow> b)"

text \<open>\<open>Array.prototype.join\<close>.\<close>

fun join :: "string \<Rightarrow> string list \<Rightarrow> string" where
  "join sep [] = []"
| "join sep [x] = x"
| "join sep (x # y # ys) = x @ sep @ join sep (y # ys)"

text \<open>The decimal text of an integer, as a template literal renders a number that is
  an integer.\<close>

definition digit_char :: "nat \<Rightarrow> char" where
  "digit_char d = ''0123456789'' ! d"

function show_nat :: "nat \<Rightarrow> string" where
  "show_nat n = (if n < 10 then [digit_char n] else show_nat (n div 10) @ [digit_char (n mod 10)])"
  by pat_completeness auto
termination
  by (relation "measure (\<lambda>n. n)") auto

definition show_int :: "int \<Rightarrow> string" where
  "show_int i = (if i < 0 then CHR ''-'' # show_nat (nat (- i)) else show_nat (nat i))"

text \<open>A row object with no property set.\<close>

definition empty_row :: laptop_row where
  "empty_row = \<lparr> row_model_id = None, row_spec_id = None, row_model_name = None,
     row_series = None, row_short_description = None, row_product_image_url = None,
     row_brand_name = None, row_brand_slug = None, row_processor_model = None,
     row_ram_gb = None, row_storage_capacity_gb = None, row_gpu_type = None,
     row_gpu_model = None, row_display_size_inches = None, row_min_price = None,
     row_available_from = None, row_relevance_score = None \<rparr>"

section \<open>generateRecommendationReason\<close>

text \<open>
  \<open>recommendation.laptop?.x\<close> is \<open>undefined\<close> when \<open>laptop\<close> is \<open>null\<close>, else the
  property \<open>x\<close> of the row.
\<close>

definition opt_chain :: "laptop_row option \<Rightarrow> (laptop_row \<Rightarrow> 'a option) \<Rightarrow> 'a option" where
  "opt_chain l f = (case l of None \<Rightarrow> None | Some row \<Rightarrow> f row)"

text \<open>
  The reasons are pushed in the order of the source's four tests. \<open>x >= 16\<close> is false
  for \<open>undefined\<close> and \<open>null\<close>. \<open>min_price\<close> is an aggregate over a \<open>DECIMAL\<close> column,
  which \<open>pg\<close> returns as a non-empty text or \<open>null\<close>: it is truthy exactly when it is
  not \<open>null\<close>, and \<open><=\<close> compares it as a number.
\<close>

definition generateRecommendationReason :: "recommendation \<Rightarrow> preferences \<Rightarrow> string" where
  "generateRecommendationReason recommendation preferences =
    (let reasons0 = [];
         reasons1 =
           (if primary_usage preferences = Gaming
               \<and> opt_chain (laptop recommendation) row_gpu_type = Some ''Dedicated''
            then reasons0 @ [''Dedicated GPU for gaming performance'']
            else reasons0);
         reasons2 =
           (case opt_chain (laptop recommendation) row_ram_gb of
              Some ram \<Rightarrow>
                (if ram \<ge> 16
                 then reasons1 @ [show_int ram @ ''GB RAM for smooth multitasking'']
                 else reasons1)
            | None \<Rightarrow> reasons1);
         reasons3 =
           (if truthy_bool (prefer_thin_and_light preferences) \<and> laptop recommendation \<noteq> None
            then reasons2 @ [''Portable design for on-the-go use'']
            else reasons2);
         reasons4 =
           (case (max_budget preferences, opt_chain (laptop recommendation) row_min_price) of
              (Some budget, Some price) \<Rightarrow>
                (if budget \<noteq> 0
                 then (if price \<le> budget then reasons3 @ [''Within your budget''] else reasons3)
                 else reasons3)
            | _ \<Rightarrow> reasons3)
     in if length reasons4 > 0 then join '', '' reasons4 else ''Matches your preferences'')"

text \<open>The four tests of the function, all failing: no reason is pushed.\<close>

definition no_signal :: "recommendation \<Rightarrow> preferences \<Rightarrow> bool" where
  "no_signal recommendation preferences \<longleftrightarrow>
     \<not> (primary_usage preferences = Gaming
          \<and> opt_chain (laptop recommendation) row_gpu_type = Some ''Dedicated'')
     \<and> (\<forall>ram. opt_chain (laptop recommendation) row_ram_gb = Some ram \<longrightarrow> ram < 16)
     \<and> \<not> (truthy_bool (prefer_thin_and_light preferences) \<and> laptop recommendation \<noteq> None)
     \<and> (\<forall>budget price. max_budget preferences = Some budget \<and> budget \<noteq> 0
           \<and> opt_chain (laptop recommendation) row_min_price = Some price
           \<longrightarrow> budget < price)"

section \<open>The catalog tables\<close>

text \<open>
  The tables of \<open>001_initial_schema.sql\<close> that the modelled statements read, with the
  columns those statements use, named by the alias the statements give the table
  (\<open>b\<close>, \<open>hs\<close>, \<open>lm\<close>, \<open>i\<close>, \<open>r\<close>). A column without \<open>NOT NULL\<close> is an \<open>option\<close>.
  A table is the list of its rows in the order the engine scans them.
\<close>

record brands_row =
  b_brand_id :: uuid
  b_brand_name :: string
  b_brand_slug :: string

record hardware_specs_row =
  hs_spec_id :: uuid
  hs_processor_model :: string
  hs_processor_cores :: int
  hs_ram_gb :: int
  hs_storage_capacity_gb :: int
  hs_display_size_inches :: rat
  hs_refresh_rate_hz :: "int option"
  hs_gpu_type :: string
  hs_gpu_model :: "string option"
  hs_weight_kg :: "rat option"

record laptop_models_row =
  lm_model_id :: uuid
  lm_brand_id :: uuid
  lm_spec_id :: uuid
  lm_model_name :: string
  lm_series :: "string option"
  lm_short_description :: "string option"
  lm_product_image_url :: "string option"
  lm_is_discontinued :: "bool option"

record inventory_row =
  i_inventory_id :: uuid
  i_model_id :: uuid
  i_unit_price :: rat
  i_stock_quantity :: int
  i_is_available :: "bool option"

text \<open>\<open>created_at\<close> is a time stamp, here in seconds.\<close>

record recommendations_row =
  r_recommendation_id :: uuid
  r_model_id :: uuid
  r_created_at :: "int option"

record database =
  brands :: "brands_row list"
  hardware_specs :: "hardware_specs_row list"
  laptop_models :: "laptop_models_row list"
  inventory :: "inventory_row list"
  recommendations :: "recommendations_row list"

section \<open>The meaning of the SQL statements\<close>

text \<open>
  One row of a \<open>FROM\<close> clause: the \<open>lm\<close>, \<open>b\<close> and \<open>hs\<close> rows that the inner joins
  put together, and the \<open>i\<close> and \<open>r\<close> rows, which are \<open>NULL\<close> when a \<open>LEFT JOIN\<close> found
  no partner (or when the statement does not join that table).
\<close>

record joined =
  j_lm :: laptop_models_row
  j_b :: brands_row
  j_hs :: hardware_specs_row
  j_i :: "inventory_row option"
  j_r :: "recommendations_row option"

text \<open>
  \<open>FROM laptop_models lm JOIN brands b ON lm.brand_id = b.brand_id
  JOIN hardware_specs hs ON lm.spec_id = hs.spec_id\<close>, common to every statement.
\<close>

definition from_lm_b_hs ::
  "database \<Rightarrow> (laptop_models_row \<times> brands_row \<times> hardware_specs_row) list" where
  "from_lm_b_hs db =
     [(m, br, s). m \<leftarrow> laptop_models db,
                  br \<leftarrow> brands db, lm_brand_id m = b_brand_id br,
                  s \<leftarrow> hardware_specs db, lm_spec_id m = hs_spec_id s]"

text \<open>\<open>xs LEFT JOIN ys ON on\<close>: each left row with each partner, or once with \<open>NULL\<close>.\<close>

definition left_join :: "('a \<Rightarrow> 'b \<Rightarrow> bool) \<Rightarrow> 'a list \<Rightarrow> 'b list \<Rightarrow> ('a \<times> 'b option) list" where
  "left_join on xs ys =
     concat (map (\<lambda>x. case filter (on x) ys of
                         [] \<Rightarrow> [(x, None)]
                       | y # rest \<Rightarrow> map (\<lambda>p. (x, Some p)) (y # rest)) xs)"

text \<open>
  A JavaScript number bound to a parameter: a finite value or \<open>NaN\<close> (which
  \<open>parseInt\<close> produces). \<open>pg\<close> sends its decimal text; where the statement compares the
  parameter with an \<open>INTEGER\<close> column, or uses it as \<open>LIMIT\<close> or \<open>OFFSET\<close>, PostgreSQL
  reads the text as an \<open>integer\<close> or a \<open>bigint\<close> and raises when it is not one.
\<close>

datatype js_number = Num rat | NaN

definition int4_of :: "js_number \<Rightarrow> int option" where
  "int4_of v =
     (case v of
        NaN \<Rightarrow> None
      | Num x \<Rightarrow>
          (if x = of_int \<lfloor>x\<rfloor> \<and> - 2147483648 \<le> \<lfloor>x\<rfloor> \<and> \<lfloor>x\<rfloor> \<le> 2147483647
           then Some \<lfloor>x\<rfloor> else None))"

definition int8_of :: "js_number \<Rightarrow> int option" where
  "int8_of v =
     (case v of
        NaN \<Rightarrow> None
      | Num x \<Rightarrow>
          (if x = of_int \<lfloor>x\<rfloor> \<and> - 9223372036854775808 \<le> \<lfloor>x\<rfloor> \<and> \<lfloor>x\<rfloor> \<le> 9223372036854775807
           then Some \<lfloor>x\<rfloor> else None))"

text \<open>
  The texts that the routes push to \<open>conditions\<close>. Every text with a placeholder
  \<open>$n\<close> is pushed together with its value and \<open>paramIndex\<close> counts these pushes, so
  \<open>$n\<close> is bound to the value pushed with it: the condition carries that value.
\<close>

datatype condition =
    Lm_is_discontinued_false        \<comment> \<open>\<open>lm.is_discontinued = false\<close>\<close>
  | I_is_available_true             \<comment> \<open>\<open>i.is_available = true\<close>\<close>
  | I_stock_quantity_positive       \<comment> \<open>\<open>i.stock_quantity > 0\<close>\<close>
  | I_unit_price_le rat             \<comment> \<open>\<open>i.unit_price <= $n\<close>\<close>
  | Hs_ram_gb_ge js_number          \<comment> \<open>\<open>hs.ram_gb >= $n\<close>\<close>
  | Hs_ram_gb_le js_number          \<comment> \<open>\<open>hs.ram_gb <= $n\<close>\<close>
  | Hs_storage_capacity_gb_ge js_number
  | Hs_storage_capacity_gb_le js_number
  | Hs_processor_cores_ge js_number \<comment> \<open>\<open>hs.processor_cores >= $n\<close>\<close>
  | Hs_refresh_rate_hz_ge js_number \<comment> \<open>\<open>hs.refresh_rate_hz >= $n\<close>\<close>
  | Hs_gpu_type_eq string           \<comment> \<open>\<open>hs.gpu_type = $n\<close>\<close>
  | B_brand_slug_eq string          \<comment> \<open>\<open>b.brand_slug = $n\<close>\<close>
  | Lm_series_eq string             \<comment> \<open>\<open>lm.series = $n\<close>\<close>

text \<open>Whether PostgreSQL accepts the value bound to the condition's placeholder.\<close>

fun binds :: "condition \<Rightarrow> bool" where
  "binds (Hs_ram_gb_ge v) = (int4_of v \<noteq> None)"
| "binds (Hs_ram_gb_le v) = (int4_of v \<noteq> None)"
| "binds (Hs_storage_capacity_gb_ge v) = (int4_of v \<noteq> None)"
| "binds (Hs_storage_capacity_gb_le v) = (int4_of v \<noteq> None)"
| "binds (Hs_processor_cores_ge v) = (int4_of v \<noteq> None)"
| "binds (Hs_refresh_rate_hz_ge v) = (int4_of v \<noteq> None)"
| "binds _ = True"

text \<open>
  Whether the condition is true of a row. A comparison with \<open>NULL\<close> is not true, so a
  row with a \<open>NULL\<close> in the compared column is not kept.
\<close>

definition cmp_int4 :: "(int \<Rightarrow> int \<Rightarrow> bool) \<Rightarrow> int option \<Rightarrow> js_number \<Rightarrow> bool" where
  "cmp_int4 rel column v =
     (case (column, int4_of v) of (Some c, Some n) \<Rightarrow> rel c n | _ \<Rightarrow> False)"

fun holds :: "condition \<Rightarrow> joined \<Rightarrow> bool" where
  "holds Lm_is_discontinued_false row = (lm_is_discontinued (j_lm row) = Some False)"
| "holds I_is_available_true row =
     (case j_i row of None \<Rightarrow> False | Some iv \<Rightarrow> i_is_available iv = Some True)"
| "holds I_stock_quantity_positive row =
     (case j_i row of None \<Rightarrow> False | Some iv \<Rightarrow> i_stock_quantity iv > 0)"
| "holds (I_unit_price_le x) row =
     (case j_i row of None \<Rightarrow> False | Some iv \<Rightarrow> i_unit_price iv \<le> x)"
| "holds (Hs_ram_gb_ge v) row = cmp_int4 (\<ge>) (Some (hs_ram_gb (j_hs row))) v"
| "holds (Hs_ram_gb_le v) row = cmp_int4 (\<le>) (Some (hs_ram_gb (j_hs row))) v"
| "holds (Hs_storage_capacity_gb_ge v) row =
     cmp_int4 (\<ge>) (Some (hs_storage_capacity_gb (j_hs row))) v"
| "holds (Hs_storage_capacity_gb_le v) row =
     cmp_int4 (\<le>) (Some (hs_storage_capacity_gb (j_hs row))) v"
| "holds (Hs_processor_cores_ge v) row = cmp_int4 (\<ge>) (Some (hs_processor_cores (j_hs row))) v"
| "holds (Hs_refresh_rate_hz_ge v) row = cmp_int4 (\<ge>) (hs_refresh_rate_hz (j_hs row)) v"
| "holds (Hs_gpu_type_eq t) row = (hs_gpu_type (j_hs row) = t)"
| "holds (B_brand_slug_eq t) row = (b_brand_slug (j_b row) = t)"
| "holds (Lm_series_eq t) row = (lm_series (j_lm row) = Some t)"

datatype error =
    Zod_error
  | Pool_not_initialized
  | Fetch_failed
  | AI_service_error string
  | Invalid_json
  | Type_error
  | Reference_error string
  | Query_error

text \<open>\<open>WHERE c1 AND ... AND cn\<close>.\<close>

definition where_clause :: "condition list \<Rightarrow> joined list \<Rightarrow> error + joined list" where
  "where_clause conditions rows =
     (if list_all binds conditions
      then Inr (filter (\<lambda>row. list_all (\<lambda>c. holds c row) conditions) rows)
      else Inl Query_error)"

text \<open>\<open>LIMIT $n\<close> and \<open>OFFSET $n\<close>: a negative count is an error.\<close>

definition limit :: "js_number \<Rightarrow> 'a list \<Rightarrow> error + 'a list" where
  "limit v rows =
     (case int8_of v of
        None \<Rightarrow> Inl Query_error
      | Some n \<Rightarrow> if n < 0 then Inl Query_error else Inr (take (nat n) rows))"


text \<open>
  The key of \<open>ORDER BY x ASC\<close> for a value that may be \<open>NULL\<close>: ascending order puts
  the \<open>NULL\<close>s last. \<open>ORDER BY\<close> puts the rows in the order of their keys and leaves
  the order of rows with equal keys to the engine. That choice is \<open>tie\<close>, a rank of the
  rows that the engine is free to pick: of two rows with equal keys the one with the
  lower rank comes first. Every order of pairwise different rows that SQL allows, that
  is every arrangement of the rows in the order of their keys, is the result for some
  rank: the position of a row in that order (\<open>position\<close>).
\<close>

definition nulls_last :: "'a::zero option \<Rightarrow> nat \<times> 'a" where
  "nulls_last v = (case v of None \<Rightarrow> (1, 0) | Some x \<Rightarrow> (0, x))"

definition order_by :: "('a \<Rightarrow> nat) \<Rightarrow> ('a \<Rightarrow> 'k::linorder) \<Rightarrow> 'a list \<Rightarrow> 'a list" where
  "order_by tie key rows = sort_key (\<lambda>row. (key row, tie row)) rows"

fun position :: "'a list \<Rightarrow> 'a \<Rightarrow> nat" where
  "position [] x = 0"
| "position (y # ys) x = (if x = y then 0 else Suc (position ys x))"

text \<open>A statement without \<open>ORDER BY\<close> returns its rows in an order of the engine's
  choice.\<close>

definition unordered :: "('a \<Rightarrow> nat) \<Rightarrow> 'a list \<Rightarrow> 'a list" where
  "unordered tie rows = sort_key tie rows"

section \<open>recommendationSchema\<close>

text \<open>
  The request body is the JSON value that the framework parsed, or \<open>undefined\<close>
  (\<open>None\<close>) when the request has none. A \<open>JObj\<close> lists each property once, and
  reading a property that is not listed gives \<open>undefined\<close>.
\<close>

definition property :: "(string \<times> json) list \<Rightarrow> string \<Rightarrow> json option" where
  "property props name = map_of props name"

text \<open>Sequencing of steps that may throw.\<close>

definition and_then :: "error + 'a \<Rightarrow> ('a \<Rightarrow> error + 'b) \<Rightarrow> error + 'b" where
  "and_then result f = (case result of Inl e \<Rightarrow> Inl e | Inr x \<Rightarrow> f x)"

text \<open>\<open>z.number().optional()\<close>, \<open>z.boolean().optional()\<close>.\<close>

definition z_number_optional :: "json option \<Rightarrow> error + rat option" where
  "z_number_optional v =
     (case v of None \<Rightarrow> Inr None | Some (JNum x) \<Rightarrow> Inr (Some x) | Some _ \<Rightarrow> Inl Zod_error)"

definition z_boolean_optional :: "json option \<Rightarrow> error + bool option" where
  "z_boolean_optional v =
     (case v of None \<Rightarrow> Inr None | Some (JBool x) \<Rightarrow> Inr (Some x) | Some _ \<Rightarrow> Inl Zod_error)"

text \<open>The two enumerations and their texts.\<close>

fun usage_name :: "usage \<Rightarrow> string" where
  "usage_name Gaming = ''Gaming''"
| "usage_name Programming = ''Programming''"
| "usage_name Design = ''Design''"
| "usage_name Video_Editing = ''Video Editing''"
| "usage_name Office = ''Office''"
| "usage_name Student = ''Student''"
| "usage_name General = ''General''"
| "usage_name Workstation = ''Workstation''"

definition usages :: "usage list" where
  "usages = [Gaming, Programming, Design, Video_Editing, Office, Student, General, Workstation]"

fun gpu_class_name :: "gpu_class \<Rightarrow> string" where
  "gpu_class_name Integrated = ''Integrated''"
| "gpu_class_name Dedicated = ''Dedicated''"
| "gpu_class_name Hybrid = ''Hybrid''"

definition gpu_classes :: "gpu_class list" where
  "gpu_classes = [Integrated, Dedicated, Hybrid]"

text \<open>\<open>z.enum([...])\<close>: the value must be one of the listed texts. Without
  \<open>.optional()\<close> an absent property is an error as well.\<close>

definition z_enum :: "('a \<Rightarrow> string) \<Rightarrow> 'a list \<Rightarrow> json option \<Rightarrow> error + 'a" where
  "z_enum name options v =
     (case v of
        Some (JStr t) \<Rightarrow>
          (case find (\<lambda>x. name x = t) options of None \<Rightarrow> Inl Zod_error | Some x \<Rightarrow> Inr x)
      | _ \<Rightarrow> Inl Zod_error)"

definition z_enum_optional :: "('a \<Rightarrow> string) \<Rightarrow> 'a list \<Rightarrow> json option \<Rightarrow> error + 'a option" where
  "z_enum_optional name options v =
     (case v of None \<Rightarrow> Inr None | Some x \<Rightarrow> and_then (z_enum name options (Some x)) (\<lambda>y. Inr (Some y)))"

text \<open>\<open>z.number().int().min(1).max(20).default(5)\<close>.\<close>

definition z_top_k :: "json option \<Rightarrow> error + int" where
  "z_top_k v =
     (case v of
        None \<Rightarrow> Inr 5
      | Some (JNum x) \<Rightarrow>
          (if x = of_int \<lfloor>x\<rfloor> \<and> 1 \<le> x \<and> x \<le> 20 then Inr \<lfloor>x\<rfloor> else Inl Zod_error)
      | Some _ \<Rightarrow> Inl Zod_error)"

text \<open>The inner \<open>z.object\<close>: the value must be an object; properties that the schema
  does not name are not copied to the result.\<close>

definition parse_user_preferences :: "json option \<Rightarrow> error + preferences" where
  "parse_user_preferences v =
     (case v of
        Some (JObj props) \<Rightarrow>
          and_then (z_number_optional (property props ''min_budget'')) (\<lambda>v_min_budget.
          and_then (z_number_optional (property props ''max_budget'')) (\<lambda>v_max_budget.
          and_then (z_enum usage_name usages (property props ''primary_usage'')) (\<lambda>v_primary_usage.
          and_then (z_number_optional (property props ''min_ram_gb'')) (\<lambda>v_min_ram_gb.
          and_then (z_number_optional (property props ''min_storage_gb'')) (\<lambda>v_min_storage_gb.
          and_then (z_enum_optional gpu_class_name gpu_classes (property props ''preferred_gpu_type''))
            (\<lambda>v_preferred_gpu_type.
          and_then (z_number_optional (property props ''min_display_size'')) (\<lambda>v_min_display_size.
          and_then (z_number_optional (property props ''max_weight_kg'')) (\<lambda>v_max_weight_kg.
          and_then (z_boolean_optional (property props ''prefer_thin_and_light''))
            (\<lambda>v_prefer_thin_and_light.
          Inr \<lparr> min_budget = v_min_budget, max_budget = v_max_budget,
                primary_usage = v_primary_usage, min_ram_gb = v_min_ram_gb,
                min_storage_gb = v_min_storage_gb,
                preferred_gpu_type = v_preferred_gpu_type,
                min_display_size = v_min_display_size, max_weight_kg = v_max_weight_kg,
                prefer_thin_and_light = v_prefer_thin_and_light \<rparr>)))))))))
      | _ \<Rightarrow> Inl Zod_error)"

text \<open>\<open>recommendationSchema.parse\<close>: throws a \<open>ZodError\<close> or returns the body.\<close>

definition recommendationSchema_parse :: "json option \<Rightarrow> error + body" where
  "recommendationSchema_parse request_body =
     (case request_body of
        Some (JObj props) \<Rightarrow>
          and_then (parse_user_preferences (property props ''user_preferences'')) (\<lambda>prefs.
          and_then (z_top_k (property props ''top_k'')) (\<lambda>k.
          Inr \<lparr> user_preferences = prefs, top_k = k \<rparr>))
      | _ \<Rightarrow> Inl Zod_error)"

section \<open>What surrounds the route\<close>

text \<open>The values that the \<open>INSERT INTO recommendations\<close> of the route binds.\<close>

record stored_recommendation =
  ins_user_id :: string
  ins_model_id :: "uuid option"
  ins_relevance_score :: "rat option"
  ins_confidence_score :: "rat option"
  ins_recommendation_reason :: string
  ins_matched_features :: "string list"

text \<open>The statements that the routes send with \<open>db.query\<close>.\<close>

datatype statement =
    Enrichment_select uuid_param
  | Recommendation_insert stored_recommendation
  | Fallback_select
  | Trending_select
  | By_usage_select
  | Compare_select
  | Listing_select

text \<open>
  The JSON document of the AI service. \<open>ai_recommendations\<close> is \<open>None\<close> when the
  document has no array there (then \<open>aiData.recommendations.map\<close> throws a
  \<open>TypeError\<close>); an element is \<open>None\<close> when it is \<open>null\<close> (then \<open>rec.spec_id\<close>
  throws a \<open>TypeError\<close>), else the entry with all its properties.
\<close>

record ai_data =
  ai_recommendations :: "recommendation option list option"
  ai_confidence :: "rat option"

text \<open>What \<open>fetch\<close> and \<open>aiResponse.json()\<close> do.\<close>

datatype ai_fetch =
    Fetch_rejects
  | Response_not_ok string
  | Response_invalid_json
  | Response_json ai_data

text \<open>
  The world of one request:
  \<^item> \<open>pool\<close>: the pool that \<open>getPool()\<close> returns, with the tables behind it, or
    \<open>None\<close> when the pool is not initialised (\<open>getPool\<close> throws);
  \<^item> \<open>global_db\<close>: what the identifier \<open>db\<close> denotes inside
    \<open>getFallbackRecommendations\<close>. The function declares no \<open>db\<close> (its parameters are
    \<open>app\<close> and \<open>body\<close>) and the module declares and imports none (the routes bind
    their own \<open>const db = getPool()\<close>), so the identifier is looked up in the global
    scope; \<open>None\<close> is an unbound identifier, which is a \<open>ReferenceError\<close>;
  \<^item> \<open>app_db\<close>: what \<open>app.db\<close> is inside \<open>laptopsRoutes\<close>. The database plug-in
    decorates the instance that it is registered on, \<open>app.register(db)\<close> gives it an
    instance of its own, and the routes are registered as plug-ins next to it, so the
    decoration does not reach them; \<open>None\<close> is \<open>undefined\<close>, and \<open>app.db.query\<close> is
    then a \<open>TypeError\<close>;
  \<^item> \<open>ai_service\<close>: the outcome of the call of the AI service with a body;
  \<^item> \<open>rejects\<close>: whether \<open>db.query\<close> rejects a statement for a reason that the
    model of the tables does not show (the connection is lost, the engine refuses the
    statement, a constraint is violated);
  \<^item> \<open>tie_rank\<close>: the engine's choice among rows with equal sort keys (see
    \<open>order_by\<close>), as a rank of the joined rows; a row of a grouped statement has the
    rank of the first row of its group;
  \<^item> \<open>clock\<close>: \<open>new Date().toISOString()\<close>; \<open>now\<close>: SQL \<open>NOW()\<close> in seconds.
\<close>

record world =
  pool :: "database option"
  global_db :: "database option"
  app_db :: "database option"
  ai_service :: "body \<Rightarrow> ai_fetch"
  rejects :: "statement \<Rightarrow> bool"
  tie_rank :: "joined \<Rightarrow> nat"
  clock :: string
  now :: int

datatype log_entry = Log_error string error | Log_warn string

text \<open>\<open>reply.send({success: true, data: {...}})\<close>; \<open>note\<close> is set on one path only.\<close>

record response =
  success :: bool
  data_recommendations :: "recommendation list"
  data_user_preferences :: preferences
  data_generated_at :: string
  data_note :: "string option"

text \<open>A route sends a response, or its promise rejects and the framework's error
  handler answers with the error.\<close>

datatype reply = Sent response | Failed error

record outcome =
  reply :: reply
  log :: "log_entry list"
  stored :: "stored_recommendation list"

section \<open>getFallbackRecommendations\<close>

text \<open>\<open>FROM ... JOIN inventory i ON lm.model_id = i.model_id\<close>.\<close>

definition fallback_from :: "database \<Rightarrow> joined list" where
  "fallback_from db =
     [\<lparr> j_lm = m, j_b = br, j_hs = s, j_i = Some iv, j_r = None \<rparr>.
        (m, br, s) \<leftarrow> from_lm_b_hs db,
        iv \<leftarrow> inventory db, lm_model_id m = i_model_id iv]"

text \<open>The \<open>SELECT\<close> list, with \<open>0.5 as relevance_score\<close>.\<close>

definition fallback_select :: "joined \<Rightarrow> laptop_row" where
  "fallback_select row =
     empty_row \<lparr>
       row_spec_id := Some (lm_model_id (j_lm row)),
       row_model_name := Some (lm_model_name (j_lm row)),
       row_series := lm_series (j_lm row),
       row_brand_name := Some (b_brand_name (j_b row)),
       row_ram_gb := Some (hs_ram_gb (j_hs row)),
       row_storage_capacity_gb := Some (hs_storage_capacity_gb (j_hs row)),
       row_gpu_type := Some (hs_gpu_type (j_hs row)),
       row_min_price := map_option i_unit_price (j_i row),
       row_relevance_score := Some (1 / 2) \<rparr>"

text \<open>The three \<open>if\<close>s that push a condition; a number is tested for truthiness, so a
  declared \<open>0\<close> pushes nothing.\<close>

definition fallback_conditions :: "preferences \<Rightarrow> condition list" where
  "fallback_conditions prefs =
     (let conditions0 =
            [Lm_is_discontinued_false, I_is_available_true, I_stock_quantity_positive];
          conditions1 =
            (case max_budget prefs of
               Some x \<Rightarrow> if x \<noteq> 0 then conditions0 @ [I_unit_price_le x] else conditions0
             | None \<Rightarrow> conditions0);
          conditions2 =
            (case min_ram_gb prefs of
               Some x \<Rightarrow> if x \<noteq> 0 then conditions1 @ [Hs_ram_gb_ge (Num x)] else conditions1
             | None \<Rightarrow> conditions1);
          conditions3 =
            (case preferred_gpu_type prefs of
               Some g \<Rightarrow> conditions2 @ [Hs_gpu_type_eq (gpu_class_name g)]
             | None \<Rightarrow> conditions2)
      in conditions3)"

text \<open>The statement: \<open>WHERE\<close>, \<open>ORDER BY i.unit_price ASC\<close>, \<open>LIMIT\<close>, \<open>SELECT\<close>.\<close>

definition fallback_query ::
  "(joined \<Rightarrow> nat) \<Rightarrow> database \<Rightarrow> condition list \<Rightarrow> int \<Rightarrow> error + laptop_row list" where
  "fallback_query tie db conditions k =
     and_then (where_clause conditions (fallback_from db)) (\<lambda>kept.
     and_then (limit (Num (of_int k))
                 (order_by tie (\<lambda>row. nulls_last (map_option i_unit_price (j_i row))) kept))
       (\<lambda>rows. Inr (map fallback_select rows)))"

definition uuid_param_of :: "uuid option \<Rightarrow> uuid_param" where
  "uuid_param_of v = (case v of None \<Rightarrow> Uuid_Null | Some u \<Rightarrow> Uuid u)"

text \<open>\<open>db.query\<close> on a database handle.\<close>

definition db_query :: "world \<Rightarrow> statement \<Rightarrow> error + 'a \<Rightarrow> error + 'a" where
  "db_query w st result = (if rejects w st then Inl Query_error else result)"

text \<open>The callback of \<open>result.rows.map\<close>.\<close>

definition fallback_recommendation :: "laptop_row \<Rightarrow> recommendation" where
  "fallback_recommendation row =
     \<lparr> spec_id = uuid_param_of (row_spec_id row),
       relevance_score = row_relevance_score row,
       laptop = Some row,
       matched_features = Some [],
       other_properties = [] \<rparr>"

text \<open>
  The function builds the conditions and the statement and then reaches
  \<open>db.query(query, values)\<close>, where \<open>db\<close> is the identifier described with \<open>global_db\<close>.
\<close>

definition getFallbackRecommendations :: "world \<Rightarrow> body \<Rightarrow> error + recommendation list" where
  "getFallbackRecommendations w body =
     (let prefs = user_preferences body;
          conditions = fallback_conditions prefs
      in case global_db w of
           None \<Rightarrow> Inl (Reference_error ''db is not defined'')
         | Some db \<Rightarrow>
             and_then (db_query w Fallback_select
                         (fallback_query (tie_rank w) db conditions (top_k body)))
               (\<lambda>rows. Inr (map fallback_recommendation rows)))"

text \<open>The joined rows that pass the \<open>WHERE\<close> clause of the fallback statement.\<close>

definition qualifying :: "database \<Rightarrow> preferences \<Rightarrow> joined list" where
  "qualifying db prefs =
     filter (\<lambda>row. list_all (\<lambda>c. holds c row) (fallback_conditions prefs)) (fallback_from db)"

section \<open>Grouping and aggregates\<close>

text \<open>
  \<open>LEFT JOIN inventory i ON lm.model_id = i.model_id AND extra\<close> after the common
  \<open>FROM\<close>; \<open>extra\<close> is the rest of the \<open>ON\<close> condition.
\<close>

definition left_join_inventory :: "(inventory_row \<Rightarrow> bool) \<Rightarrow> database \<Rightarrow> joined list" where
  "left_join_inventory extra db =
     [\<lparr> j_lm = m, j_b = br, j_hs = s, j_i = iv, j_r = None \<rparr>.
        ((m, br, s), iv) \<leftarrow>
          left_join (\<lambda>(m, br, s) iv. lm_model_id m = i_model_id iv \<and> extra iv)
            (from_lm_b_hs db) (inventory db)]"

text \<open>\<open>i.is_available = true\<close>.\<close>

definition available :: "inventory_row \<Rightarrow> bool" where
  "available iv \<longleftrightarrow> i_is_available iv = Some True"

text \<open>
  \<open>GROUP BY\<close>: the rows with the same key form a group. A group is given with its
  first row: a selected column that is not in the key is read from that row (SQL allows
  such a column only when the key determines it), and the aggregates range over all
  rows of the group.
\<close>

fun first_of_each :: "('a \<Rightarrow> 'k) \<Rightarrow> 'a list \<Rightarrow> 'a list" where
  "first_of_each key [] = []"
| "first_of_each key (x # xs) = x # first_of_each key (filter (\<lambda>y. key y \<noteq> key x) xs)"

definition group_by :: "('a \<Rightarrow> 'k) \<Rightarrow> 'a list \<Rightarrow> ('a \<times> 'a list) list" where
  "group_by key rows =
     map (\<lambda>first. (first, filter (\<lambda>row. key row = key first) rows)) (first_of_each key rows)"

text \<open>\<open>MIN\<close>, \<open>MAX\<close> and \<open>COUNT\<close> skip \<open>NULL\<close>s; \<open>MIN\<close> and \<open>MAX\<close> of nothing are
  \<open>NULL\<close>.\<close>

definition non_null :: "'a option list \<Rightarrow> 'a list" where
  "non_null vs = concat (map (\<lambda>v. case v of None \<Rightarrow> [] | Some x \<Rightarrow> [x]) vs)"

definition sql_min :: "rat option list \<Rightarrow> rat option" where
  "sql_min vs = (case non_null vs of [] \<Rightarrow> None | x # xs \<Rightarrow> Some (fold min xs x))"


definition sql_count :: "'a option list \<Rightarrow> int" where
  "sql_count vs = int (length (non_null vs))"

definition unit_prices :: "joined list \<Rightarrow> rat option list" where
  "unit_prices rows = map (\<lambda>row. map_option i_unit_price (j_i row)) rows"

definition inventory_ids :: "joined list \<Rightarrow> uuid option list" where
  "inventory_ids rows = map (\<lambda>row. map_option i_inventory_id (j_i row)) rows"

section \<open>POST /: the primary path\<close>

text \<open>
  The statement that fetches the laptop of one recommendation,
  \<open>WHERE lm.model_id = $1 GROUP BY lm.model_id, b.brand_name, hs.processor_model,
  hs.ram_gb, hs.storage_capacity_gb, hs.gpu_model, hs.display_size_inches\<close>, with the
  meaning that its joins, its groups and its aggregates have. It selects
  \<open>b.brand_slug\<close>, which is not a column of the \<open>GROUP BY\<close>; an engine that refuses
  the statement for that is a case of \<open>rejects\<close>.
\<close>

definition enrichment_query :: "database \<Rightarrow> uuid \<Rightarrow> laptop_row list" where
  "enrichment_query db u =
     (let kept = filter (\<lambda>row. lm_model_id (j_lm row) = u) (left_join_inventory available db);
          groups =
            group_by (\<lambda>row. (lm_model_id (j_lm row), b_brand_name (j_b row),
                              hs_processor_model (j_hs row), hs_ram_gb (j_hs row),
                              hs_storage_capacity_gb (j_hs row), hs_gpu_model (j_hs row),
                              hs_display_size_inches (j_hs row))) kept
      in map (\<lambda>(first, members).
                empty_row \<lparr>
                  row_model_id := Some (lm_model_id (j_lm first)),
                  row_model_name := Some (lm_model_name (j_lm first)),
                  row_series := lm_series (j_lm first),
                  row_short_description := lm_short_description (j_lm first),
                  row_product_image_url := lm_product_image_url (j_lm first),
                  row_brand_name := Some (b_brand_name (j_b first)),
                  row_brand_slug := Some (b_brand_slug (j_b first)),
                  row_processor_model := Some (hs_processor_model (j_hs first)),
                  row_ram_gb := Some (hs_ram_gb (j_hs first)),
                  row_storage_capacity_gb := Some (hs_storage_capacity_gb (j_hs first)),
                  row_gpu_model := hs_gpu_model (j_hs first),
                  row_display_size_inches := Some (hs_display_size_inches (j_hs first)),
                  row_min_price := sql_min (unit_prices members),
                  row_available_from := Some (sql_count (inventory_ids members)) \<rparr>) groups)"

text \<open>
  The callback of the first \<open>map\<close>: \<open>{...rec, laptop: laptopResult.rows[0] || null}\<close>.
  The parameter is \<open>rec.spec_id\<close>; a \<open>NULL\<close> parameter matches no row.
\<close>

definition enrich :: "world \<Rightarrow> database \<Rightarrow> recommendation option \<Rightarrow> error + recommendation" where
  "enrich w db element =
     (case element of
        None \<Rightarrow> Inl Type_error
      | Some rec \<Rightarrow>
          and_then
            (db_query w (Enrichment_select (spec_id rec))
               (case spec_id rec of
                  Uuid_Malformed \<Rightarrow> Inl Query_error
                | Uuid_Null \<Rightarrow> Inr []
                | Uuid u \<Rightarrow> Inr (enrichment_query db u)))
            (\<lambda>rows. Inr (rec \<lparr> laptop := (case rows of [] \<Rightarrow> None | row # _ \<Rightarrow> Some row) \<rparr>)))"

text \<open>\<open>Promise.all\<close>: the results in the order of the promises, or a rejection (the
  model reports the first one in the order of the list).\<close>

fun promise_all :: "(error + 'a) list \<Rightarrow> error + 'a list" where
  "promise_all [] = Inr []"
| "promise_all (p # ps) =
     (case p of
        Inl e \<Rightarrow> Inl e
      | Inr x \<Rightarrow> (case promise_all ps of Inl e \<Rightarrow> Inl e | Inr xs \<Rightarrow> Inr (x # xs)))"

text \<open>The values bound to the \<open>INSERT\<close> for one recommendation. The user is a
  placeholder text, not a UUID; an engine that refuses it for the \<open>uuid\<close> column
  \<open>user_id\<close> is a case of \<open>rejects\<close>.\<close>

definition insert_values :: "ai_data \<Rightarrow> preferences \<Rightarrow> recommendation \<Rightarrow> stored_recommendation" where
  "insert_values aiData prefs rec =
     \<lparr> ins_user_id = ''user-uuid-from-jwt'',
       ins_model_id = opt_chain (laptop rec) row_model_id,
       ins_relevance_score = relevance_score rec,
       ins_confidence_score =
         (if truthy_number (ai_confidence aiData) then ai_confidence aiData else None),
       ins_recommendation_reason = generateRecommendationReason rec prefs,
       ins_matched_features = (case matched_features rec of None \<Rightarrow> [] | Some fs \<Rightarrow> fs) \<rparr>"

text \<open>
  The second \<open>Promise.all\<close>: one \<open>INSERT\<close> for each recommendation, each with its own
  \<open>.catch\<close> that logs a warning, so that none of the promises rejects. The result is
  the warnings and the rows that were stored.
\<close>

fun store_recommendations ::
  "world \<Rightarrow> ai_data \<Rightarrow> preferences \<Rightarrow> recommendation list
     \<Rightarrow> log_entry list \<times> stored_recommendation list" where
  "store_recommendations w aiData prefs [] = ([], [])"
| "store_recommendations w aiData prefs (rec # recs) =
     (let values = insert_values aiData prefs rec;
          (warnings, rows) = store_recommendations w aiData prefs recs
      in if rejects w (Recommendation_insert values)
         then (Log_warn ''Failed to store recommendation'' # warnings, rows)
         else (warnings, values # rows))"

text \<open>The body of the \<open>try\<close> block: the response, the log and the stored rows, or the
  error that is thrown.\<close>

definition primary_path :: "world \<Rightarrow> database \<Rightarrow> body \<Rightarrow> error + outcome" where
  "primary_path w db body =
     (case ai_service w body of
        Fetch_rejects \<Rightarrow> Inl Fetch_failed
      | Response_not_ok status_text \<Rightarrow> Inl (AI_service_error status_text)
      | Response_invalid_json \<Rightarrow> Inl Invalid_json
      | Response_json aiData \<Rightarrow>
          (case ai_recommendations aiData of
             None \<Rightarrow> Inl Type_error
           | Some recs \<Rightarrow>
               and_then (promise_all (map (enrich w db) recs)) (\<lambda>enrichedRecommendations.
                 let (warnings, rows) =
                       store_recommendations w aiData (user_preferences body)
                         enrichedRecommendations
                 in Inr \<lparr> reply = Sent \<lparr> success = True,
                                          data_recommendations = enrichedRecommendations,
                                          data_user_preferences = user_preferences body,
                                          data_generated_at = clock w,
                                          data_note = None \<rparr>,
                          log = warnings,
                          stored = rows \<rparr>)))"

section \<open>POST /\<close>

text \<open>
  \<open>getPool()\<close> and \<open>recommendationSchema.parse\<close> run before the \<open>try\<close>: what they
  throw rejects the route. What the \<open>try\<close> block throws is logged and leads to the
  fallback; what the fallback throws rejects the route.
\<close>

definition recommendations_post :: "world \<Rightarrow> json option \<Rightarrow> outcome" where
  "recommendations_post w request_body =
     (case pool w of
        None \<Rightarrow> \<lparr> reply = Failed Pool_not_initialized, log = [], stored = [] \<rparr>
      | Some db \<Rightarrow>
          (case recommendationSchema_parse request_body of
             Inl e \<Rightarrow> \<lparr> reply = Failed e, log = [], stored = [] \<rparr>
           | Inr body \<Rightarrow>
               (case primary_path w db body of
                  Inr result \<Rightarrow> result
                | Inl error \<Rightarrow>
                    (case getFallbackRecommendations w body of
                       Inl e \<Rightarrow>
                         \<lparr> reply = Failed e,
                           log = [Log_error ''Recommendation error:'' error],
                           stored = [] \<rparr>
                     | Inr fallbackRecs \<Rightarrow>
                         \<lparr> reply = Sent \<lparr> success = True,
                                            data_recommendations = fallbackRecs,
                                            data_user_preferences = user_preferences body,
                                            data_generated_at = clock w,
                                            data_note =
                                              Some ''Fallback recommendations (AI service unavailable)'' \<rparr>,
                           log = [Log_error ''Recommendation error:'' error],
                           stored = [] \<rparr>))))"

section \<open>The gateway on PostgreSQL\<close>

text \<open>
  The statements of the gateway that PostgreSQL refuses whatever their parameters are:
  the statement of \<open>enrich\<close>, for the column \<open>b.brand_slug\<close> that is selected and neither
  grouped nor dependent on a grouped key, and the \<open>INSERT\<close>, for the text
  \<open>user-uuid-from-jwt\<close> that it binds to the \<open>uuid\<close> column \<open>user_id\<close>. The other
  statements are well formed.
\<close>

definition refused_by_postgres :: "statement \<Rightarrow> bool" where
  "refused_by_postgres st =
     (case st of
        Enrichment_select p \<Rightarrow> True
      | Recommendation_insert v \<Rightarrow> True
      | _ \<Rightarrow> False)"


section \<open>parseInt and toLowerCase\<close>









text \<open>A text that may be undefined is truthy when it is defined and not empty.\<close>

definition truthy_text :: "string option \<Rightarrow> bool" where
  "truthy_text v = (case v of None \<Rightarrow> False | Some s \<Rightarrow> s \<noteq> [])"

section \<open>The listings\<close>


subsection \<open>GET /trending\<close>





subsection \<open>GET /by-usage/:usage\<close>







subsection \<open>GET / of the laptops routes: the browse listing\<close>






subsection \<open>POST /compare\<close>





section \<open>Reading a returned recommendation\<close>

definition rec_price :: "recommendation \<Rightarrow> rat option" where
  "rec_price rec = opt_chain (laptop rec) row_min_price"

definition rec_model_name :: "recommendation \<Rightarrow> string option" where
  "rec_model_name rec = opt_chain (laptop rec) row_model_name"

definition rec_ram_gb :: "recommendation \<Rightarrow> int option" where
  "rec_ram_gb rec = opt_chain (laptop rec) row_ram_gb"

definition rec_gpu_type :: "recommendation \<Rightarrow> string option" where
  "rec_gpu_type rec = opt_chain (laptop rec) row_gpu_type"

definition fallback_note :: string where
  "fallback_note = ''Fallback recommendations (AI service unavailable)''"

section \<open>A small catalog\<close>

text \<open>
  One brand, two hardware specifications, four models (the last one discontinued) and
  five offers: two models at the same price, a cheap model with one offer in stock and
  one out of stock, and an offer of the discontinued model.
\<close>

definition ex_brands :: "brands_row list" where
  "ex_brands = [\<lparr> b_brand_id = ''b1'', b_brand_name = ''Dell'', b_brand_slug = ''dell'' \<rparr>]"

definition ex_hardware_specs :: "hardware_specs_row list" where
  "ex_hardware_specs =
     [\<lparr> hs_spec_id = ''s16'', hs_processor_model = ''i7'', hs_processor_cores = 8,
        hs_ram_gb = 16, hs_storage_capacity_gb = 512, hs_display_size_inches = 15,
        hs_refresh_rate_hz = Some 144, hs_gpu_type = ''Dedicated'',
        hs_gpu_model = Some ''RTX'', hs_weight_kg = Some 2 \<rparr>,
      \<lparr> hs_spec_id = ''s8'', hs_processor_model = ''i3'', hs_processor_cores = 4,
        hs_ram_gb = 8, hs_storage_capacity_gb = 256, hs_display_size_inches = 14,
        hs_refresh_rate_hz = Some 60, hs_gpu_type = ''Integrated'',
        hs_gpu_model = None, hs_weight_kg = None \<rparr>]"

definition ex_model :: "uuid \<Rightarrow> uuid \<Rightarrow> string \<Rightarrow> bool \<Rightarrow> laptop_models_row" where
  "ex_model ident spec name discontinued =
     \<lparr> lm_model_id = ident, lm_brand_id = ''b1'', lm_spec_id = spec, lm_model_name = name,
       lm_series = None, lm_short_description = None, lm_product_image_url = None,
       lm_is_discontinued = Some discontinued \<rparr>"

definition ex_laptop_models :: "laptop_models_row list" where
  "ex_laptop_models =
     [ex_model ''m1'' ''s16'' ''Zeta'' False,
      ex_model ''m2'' ''s16'' ''Alpha'' False,
      ex_model ''m3'' ''s8'' ''Basic'' False,
      ex_model ''m4'' ''s8'' ''Old'' True]"

definition ex_offer :: "uuid \<Rightarrow> uuid \<Rightarrow> rat \<Rightarrow> int \<Rightarrow> inventory_row" where
  "ex_offer ident model price quantity =
     \<lparr> i_inventory_id = ident, i_model_id = model, i_unit_price = price,
       i_stock_quantity = quantity, i_is_available = Some True \<rparr>"

definition ex_inventory :: "inventory_row list" where
  "ex_inventory =
     [ex_offer ''o1'' ''m1'' 150000 3,
      ex_offer ''o2'' ''m2'' 150000 2,
      ex_offer ''o3'' ''m3'' 50000 5,
      ex_offer ''o4'' ''m3'' 45000 0,
      ex_offer ''o5'' ''m4'' 40000 1]"

definition ex_database :: database where
  "ex_database =
     \<lparr> brands = ex_brands, hardware_specs = ex_hardware_specs,
       laptop_models = ex_laptop_models, inventory = ex_inventory,
       recommendations = [] \<rparr>"

text \<open>A request that declares nothing but the usage, and variants of it.\<close>

definition ex_preferences :: preferences where
  "ex_preferences =
     \<lparr> min_budget = None, max_budget = None, primary_usage = General, min_ram_gb = None,
       min_storage_gb = None, preferred_gpu_type = None, min_display_size = None,
       max_weight_kg = None, prefer_thin_and_light = None \<rparr>"

definition ex_body :: body where
  "ex_body = \<lparr> user_preferences = ex_preferences, top_k = 5 \<rparr>"

definition ex_request :: json where
  "ex_request = JObj [(''user_preferences'', JObj [(''primary_usage'', JStr ''General'')])]"

text \<open>
  Two worlds in which the AI service cannot be reached. In \<open>ex_world\<close> the identifier
  \<open>db\<close> of \<open>getFallbackRecommendations\<close> and \<open>app.db\<close> denote the database, and the
  engine refuses no statement and returns rows with equal keys in the order of the
  \<open>FROM\<close> clause; in \<open>ex_module_world\<close> the identifier \<open>db\<close> is unbound, as in the
  module as it is written.
\<close>

definition ex_world :: world where
  "ex_world =
     \<lparr> pool = Some ex_database, global_db = Some ex_database, app_db = Some ex_database,
       ai_service = (\<lambda>body. Fetch_rejects), rejects = (\<lambda>st. False),
       tie_rank = (\<lambda>row. 0),
       clock = ''2026-01-01T00:00:00.000Z'', now = 0 \<rparr>"

definition ex_module_world :: world where
  "ex_module_world = ex_world \<lparr> global_db := None \<rparr>"

text \<open>
  The gateway as it runs on PostgreSQL with the small catalog, for an AI service that
  answers as \<open>ai\<close> says and an engine that breaks ties as \<open>tie\<close> says: \<open>getPool()\<close>
  returns the pool, the identifier \<open>db\<close> of \<open>getFallbackRecommendations\<close> is unbound,
  \<open>app.db\<close> is undefined in \<open>laptopsRoutes\<close>, and the engine refuses the statement of
  \<open>enrich\<close> and the \<open>INSERT\<close>.
\<close>

definition ex_gateway :: "(body \<Rightarrow> ai_fetch) \<Rightarrow> (joined \<Rightarrow> nat) \<Rightarrow> world" where
  "ex_gateway ai tie =
     \<lparr> pool = Some ex_database, global_db = None, app_db = None,
       ai_service = ai, rejects = refused_by_postgres, tie_rank = tie,
       clock = ''2026-01-01T00:00:00.000Z'', now = 0 \<rparr>"

text \<open>An AI service that cannot be reached, one that answers with an empty list, and
  the engine that returns rows with equal keys in the order of the \<open>FROM\<close> clause.\<close>

definition ai_unreachable :: "body \<Rightarrow> ai_fetch" where
  "ai_unreachable body = Fetch_rejects"

definition ai_empty_list :: "body \<Rightarrow> ai_fetch" where
  "ai_empty_list body = Response_json \<lparr> ai_recommendations = Some [], ai_confidence = None \<rparr>"

definition scan_order :: "joined \<Rightarrow> nat" where
  "scan_order row = 0"

text \<open>The request with a minimum budget of 100000 and nothing else.\<close>

definition ex_body_min_budget :: body where
  "ex_body_min_budget =
     \<lparr> user_preferences = ex_preferences \<lparr> min_budget := Some 100000 \<rparr>, top_k = 5 \<rparr>"

text \<open>The list that the fallback returns, empty when it throws.\<close>

definition fallback_list :: "world \<Rightarrow> body \<Rightarrow> recommendation list" where
  "fallback_list w body =
     (case getFallbackRecommendations w body of Inl e \<Rightarrow> [] | Inr recs \<Rightarrow> recs)"

definition fallback_prices :: "world \<Rightarrow> body \<Rightarrow> error + rat option list" where
  "fallback_prices w body = map_sum id (map rec_price) (getFallbackRecommendations w body)"


text \<open>A candidate with 8 GB of RAM above the budget of an office user.\<close>

definition ex_plain_recommendation :: recommendation where
  "ex_plain_recommendation =
     \<lparr> spec_id = Uuid ''m3'', relevance_score = Some (7 / 10),
       laptop = Some (empty_row \<lparr> row_model_id := Some ''m3'', row_ram_gb := Some 8,
                                  row_min_price := Some 300000 \<rparr>),
       matched_features = None, other_properties = [] \<rparr>"

definition ex_office_preferences :: preferences where
  "ex_office_preferences =
     ex_preferences \<lparr> primary_usage := Office, max_budget := Some 200000 \<rparr>"

text \<open>The unit price of the offer of a joined row.\<close>

definition offer_price :: "joined \<Rightarrow> rat" where
  "offer_price row = (case j_i row of None \<Rightarrow> 0 | Some iv \<Rightarrow> i_unit_price iv)"

section \<open>The two responses\<close>

text \<open>The object that the route sends on the primary path and in the \<open>catch\<close> block.\<close>

definition primary_response :: "world \<Rightarrow> body \<Rightarrow> recommendation list \<Rightarrow> response" where
  "primary_response w body enriched =
     \<lparr> success = True, data_recommendations = enriched,
       data_user_preferences = user_preferences body,
       data_generated_at = clock w, data_note = None \<rparr>"

definition fallback_response :: "world \<Rightarrow> body \<Rightarrow> recommendation list \<Rightarrow> response" where
  "fallback_response w body recs =
     \<lparr> success = True, data_recommendations = recs,
       data_user_preferences = user_preferences body,
       data_generated_at = clock w, data_note = Some fallback_note \<rparr>"

text \<open>The world in which the inserts fail as \<open>fails\<close> says, and all else is as before.\<close>

definition with_insert_outcomes :: "world \<Rightarrow> (stored_recommendation \<Rightarrow> bool) \<Rightarrow> world" where
  "with_insert_outcomes w fails =
     w \<lparr> rejects := (\<lambda>st. case st of Recommendation_insert v \<Rightarrow> fails v | _ \<Rightarrow> rejects w st) \<rparr>"

text \<open>A world in which the AI service answers with one recommendation, for the first
  model of the catalog.\<close>

definition ex_ai_recommendation :: recommendation where
  "ex_ai_recommendation =
     \<lparr> spec_id = Uuid ''m1'', relevance_score = Some (9 / 10), laptop = None,
       matched_features = Some [''ram''], other_properties = [] \<rparr>"

definition ex_ai_data :: ai_data where
  "ex_ai_data =
     \<lparr> ai_recommendations = Some [Some ex_ai_recommendation], ai_confidence = Some (4 / 5) \<rparr>"

definition ex_ai_world :: world where
  "ex_ai_world =
     ex_module_world
       \<lparr> ai_service := (\<lambda>body. Response_json ex_ai_data) \<rparr>"

text \<open>The rows of a listing, none when the route fails.\<close>

definition listed :: "error + 'a list \<Rightarrow> 'a list" where
  "listed result = (case result of Inl e \<Rightarrow> [] | Inr rows \<Rightarrow> rows)"



section \<open>What the schema accepts\<close>

text \<open>The shapes of a property that the validators of the schema accept.\<close>

definition number_or_absent :: "json option \<Rightarrow> bool" where
  "number_or_absent v = (case v of None \<Rightarrow> True | Some (JNum x) \<Rightarrow> True | Some _ \<Rightarrow> False)"

definition boolean_or_absent :: "json option \<Rightarrow> bool" where
  "boolean_or_absent v = (case v of None \<Rightarrow> True | Some (JBool x) \<Rightarrow> True | Some _ \<Rightarrow> False)"

definition one_of :: "string list \<Rightarrow> json option \<Rightarrow> bool" where
  "one_of texts v = (case v of Some (JStr t) \<Rightarrow> t \<in> set texts | _ \<Rightarrow> False)"

definition one_of_or_absent :: "string list \<Rightarrow> json option \<Rightarrow> bool" where
  "one_of_or_absent texts v = (case v of None \<Rightarrow> True | Some x \<Rightarrow> one_of texts (Some x))"

definition accepted_preferences :: "(string \<times> json) list \<Rightarrow> bool" where
  "accepted_preferences props \<longleftrightarrow>
     number_or_absent (property props ''min_budget'')
     \<and> number_or_absent (property props ''max_budget'')
     \<and> one_of (map usage_name usages) (property props ''primary_usage'')
     \<and> number_or_absent (property props ''min_ram_gb'')
     \<and> number_or_absent (property props ''min_storage_gb'')
     \<and> one_of_or_absent (map gpu_class_name gpu_classes) (property props ''preferred_gpu_type'')
     \<and> number_or_absent (property props ''min_display_size'')
     \<and> number_or_absent (property props ''max_weight_kg'')
     \<and> boolean_or_absent (property props ''prefer_thin_and_light'')"

text \<open>The names of the properties of \<open>user_preferences\<close> in the schema.\<close>

definition preference_names :: "string list" where
  "preference_names =
     [''min_budget'', ''max_budget'', ''primary_usage'', ''min_ram_gb'', ''min_storage_gb'',
      ''preferred_gpu_type'', ''min_display_size'', ''max_weight_kg'',
      ''prefer_thin_and_light'']"

text \<open>A request without the usage, and one with a text where a number belongs.\<close>

definition ex_request_no_usage :: json where
  "ex_request_no_usage = JObj [(''user_preferences'', JObj [(''max_budget'', JNum 200000)])]"

definition ex_request_malformed :: json where
  "ex_request_malformed =
     JObj [(''user_preferences'',
            JObj [(''primary_usage'', JStr ''Gaming''), (''min_ram_gb'', JStr ''16'')])]"

text \<open>A request with the usage, one more preference and a property that the schema does
  not name.\<close>

definition ex_preference_props :: "(string \<times> json) list" where
  "ex_preference_props = [(''primary_usage'', JStr ''Student''), (''max_budget'', JNum 150000)]"

section \<open>Reading a reply\<close>

text \<open>The list of a reply, empty when the route failed.\<close>

definition reply_list :: "reply \<Rightarrow> recommendation list" where
  "reply_list rp = (case rp of Failed e \<Rightarrow> [] | Sent resp \<Rightarrow> data_recommendations resp)"

text \<open>The entry without its property \<open>laptop\<close>, the one property of an entry that the
  primary path sets.\<close>

definition without_laptop :: "recommendation \<Rightarrow> recommendation" where
  "without_laptop rec = rec \<lparr> laptop := None \<rparr>"




section \<open>Requests with constraints\<close>

text \<open>A request for a dedicated GPU that gives no \<open>top_k\<close>: two offers of the catalog
  qualify, those of \<open>Zeta\<close> and \<open>Alpha\<close>.\<close>

definition ex_request_dedicated :: json where
  "ex_request_dedicated =
     JObj [(''user_preferences'',
            JObj [(''primary_usage'', JStr ''Gaming''),
                  (''preferred_gpu_type'', JStr ''Dedicated'')])]"

definition ex_body_dedicated :: body where
  "ex_body_dedicated =
     \<lparr> user_preferences =
         ex_preferences \<lparr> primary_usage := Gaming, preferred_gpu_type := Some Dedicated \<rparr>,
       top_k = 5 \<rparr>"




text \<open>An AI service that answers every request with two recommendations, for the first
  two models of the catalog, each with a property \<open>rank\<close> of its own.\<close>

definition ai_two_recommendations :: "body \<Rightarrow> ai_fetch" where
  "ai_two_recommendations body =
     Response_json
       \<lparr> ai_recommendations =
           Some [Some \<lparr> spec_id = Uuid ''m1'', relevance_score = Some (9 / 10), laptop = None,
                        matched_features = Some [''gpu''],
                        other_properties = [(''rank'', JNum 1)] \<rparr>,
                 Some \<lparr> spec_id = Uuid ''m2'', relevance_score = Some (9 / 10), laptop = None,
                        matched_features = Some [''gpu''],
                        other_properties = [(''rank'', JNum 2)] \<rparr>],
         ai_confidence = Some (4 / 5) \<rparr>"

text \<open>An engine that returns rows with equal keys in the order of the model names.\<close>

definition name_order :: "joined \<Rightarrow> nat" where
  "name_order row = (if lm_model_name (j_lm row) = ''Alpha'' then 0 else 1)"

section \<open>The properties that the claims name\<close>






section \<open>The explanation is never empty\<close>

lemma join_nonempty: "xs \<noteq> [] \<Longrightarrow> [] \<notin> set xs \<Longrightarrow> join sep xs \<noteq> []"
  by (induction sep xs rule: join.induct) auto

lemma generateRecommendationReason_reasons:
  "\<exists>reasons. [] \<notin> set reasons
     \<and> generateRecommendationReason recommendation preferences =
         (if length reasons > 0 then join '', '' reasons else ''Matches your preferences'')
     \<and> (no_signal recommendation preferences \<longrightarrow> reasons = [])"
proof -
  define r1 where "r1 =
           (if primary_usage preferences = Gaming
               \<and> opt_chain (laptop recommendation) row_gpu_type = Some ''Dedicated''
            then [] @ [''Dedicated GPU for gaming performance'']
            else [])"
  define r2 where "r2 =
           (case opt_chain (laptop recommendation) row_ram_gb of
              Some ram \<Rightarrow>
                (if ram \<ge> 16
                 then r1 @ [show_int ram @ ''GB RAM for smooth multitasking'']
                 else r1)
            | None \<Rightarrow> r1)"
  define r3 where "r3 =
           (if truthy_bool (prefer_thin_and_light preferences) \<and> laptop recommendation \<noteq> None
            then r2 @ [''Portable design for on-the-go use'']
            else r2)"
  define r4 where "r4 =
           (case (max_budget preferences, opt_chain (laptop recommendation) row_min_price) of
              (Some budget, Some price) \<Rightarrow>
                (if budget \<noteq> 0
                 then (if price \<le> budget then r3 @ [''Within your budget''] else r3)
                 else r3)
            | _ \<Rightarrow> r3)"
  have eq: "generateRecommendationReason recommendation preferences =
         (if length r4 > 0 then join '', '' r4 else ''Matches your preferences'')"
    unfolding generateRecommendationReason_def Let_def r4_def r3_def r2_def r1_def ..
  have n1: "[] \<notin> set r1" by (simp add: r1_def)
  have n2: "[] \<notin> set r2" using n1 by (simp add: r2_def split: option.splits)
  have n3: "[] \<notin> set r3" using n2 by (simp add: r3_def)
  have n4: "[] \<notin> set r4" using n3 by (simp add: r4_def split: option.splits)
  have g: "no_signal recommendation preferences \<longrightarrow> r4 = []"
  proof
    assume a: "no_signal recommendation preferences"
    have "r1 = []" using a unfolding r1_def no_signal_def by presburger
    then have "r2 = []" using a by (auto simp add: r2_def no_signal_def split: option.splits)
    then have "r3 = []" using a unfolding r3_def no_signal_def by presburger
    then show "r4 = []" using a by (auto simp add: r4_def no_signal_def split: option.splits)
  qed
  show ?thesis using eq n4 g by blast
qed

text \<open>
  C9. For every candidate and every preference profile the reason text is not empty; when
  none of the four signals applies (gaming usage with a dedicated GPU, RAM of 16 GB or
  more, thin-and-light preference with a laptop row, price within a non-zero maximum
  budget) it is the generic text, which the code spells \<open>Matches your preferences\<close>.
\<close>

theorem generateRecommendationReason_never_empty:
  "generateRecommendationReason recommendation preferences \<noteq> []
   \<and> (no_signal recommendation preferences
      \<longrightarrow> generateRecommendationReason recommendation preferences = ''Matches your preferences'')"
proof -
  obtain reasons where r: "[] \<notin> set reasons"
    "generateRecommendationReason recommendation preferences =
         (if length reasons > 0 then join '', '' reasons else ''Matches your preferences'')"
    "no_signal recommendation preferences \<longrightarrow> reasons = []"
    using generateRecommendationReason_reasons by blast
  have "generateRecommendationReason recommendation preferences \<noteq> []"
  proof (cases "reasons = []")
    case True
    then show ?thesis using r(2) by simp
  next
    case False
    then show ?thesis using r(1,2) join_nonempty by simp
  qed
  moreover have "reasons = [] \<Longrightarrow>
    generateRecommendationReason recommendation preferences = ''Matches your preferences''"
    using r(2) by simp
  ultimately show ?thesis using r(3) by blast
qed

theorem generateRecommendationReason_never_empty_witness:
  "no_signal ex_plain_recommendation ex_office_preferences
   \<and> generateRecommendationReason ex_plain_recommendation ex_office_preferences
       = ''Matches your preferences''"
proof -
  have h: "no_signal ex_plain_recommendation ex_office_preferences"
    by (simp add: no_signal_def ex_plain_recommendation_def ex_office_preferences_def
          ex_preferences_def empty_row_def opt_chain_def truthy_bool_def)
  show ?thesis
    using h generateRecommendationReason_never_empty
            [of ex_plain_recommendation ex_office_preferences]
    by blast
qed

section \<open>Facts about the statements\<close>

lemma and_then_Inr:
  "and_then r f = Inr y \<longleftrightarrow> (\<exists>x. r = Inr x \<and> f x = Inr y)"
  by (cases r) (simp_all add: and_then_def)

lemma db_query_Inr:
  "db_query w st result = Inr y \<longleftrightarrow> \<not> rejects w st \<and> result = Inr y"
  by (simp add: db_query_def)

lemma where_clause_Inr:
  "where_clause conditions rows = Inr kept \<longleftrightarrow>
     list_all binds conditions
     \<and> kept = filter (\<lambda>row. list_all (\<lambda>c. holds c row) conditions) rows"
  by (auto simp: where_clause_def)


lemma limit_Inr:
  "limit v rows = Inr out \<longleftrightarrow> (\<exists>n. int8_of v = Some n \<and> 0 \<le> n \<and> out = take (nat n) rows)"
  by (auto simp: limit_def split: option.splits)


lemma int8_of_int:
  "int8_of (Num (of_int k)) = Some n \<longleftrightarrow>
     n = k \<and> - 9223372036854775808 \<le> k \<and> k \<le> 9223372036854775807"
  by (auto simp: int8_of_def)

lemma set_order_by [simp]: "set (order_by tie key rows) = set rows"
  by (simp add: order_by_def)

lemma length_order_by [simp]: "length (order_by tie key rows) = length rows"
  by (simp add: order_by_def)

lemma set_unordered [simp]: "set (unordered tie rows) = set rows"
  by (simp add: unordered_def)

text \<open>Whatever the engine does with ties, the rows come in the order of their keys.\<close>

lemma sorted_order_by: "sorted (map key (order_by tie key rows))"
proof -
  have "sorted (map (\<lambda>row. (key row, tie row)) (order_by tie key rows))"
    by (simp add: order_by_def)
  then have "sorted_wrt (\<lambda>x y. (key x, tie x) \<le> (key y, tie y)) (order_by tie key rows)"
    by (simp add: sorted_map)
  then have "sorted_wrt (\<lambda>x y. key x \<le> key y) (order_by tie key rows)"
    by (rule sorted_wrt_mono_rel[rotated]) (auto simp: less_eq_prod_def)
  then show ?thesis by (simp add: sorted_map)
qed

text \<open>Every arrangement of pairwise different rows in the order of their keys is what
  \<open>ORDER BY\<close> returns for some choice of the engine.\<close>

lemma position_nth: "distinct ys \<Longrightarrow> i < length ys \<Longrightarrow> position ys (ys ! i) = i"
proof (induction ys arbitrary: i)
  case Nil
  then show ?case by simp
next
  case (Cons y ys)
  show ?case
  proof (cases i)
    case 0
    then show ?thesis by simp
  next
    case (Suc n)
    with Cons.prems have "ys ! n \<noteq> y" "n < length ys" "distinct ys"
      by auto
    with Cons.IH[of n] Suc show ?thesis by simp
  qed
qed

lemma position_inj:
  "distinct ys \<Longrightarrow> a \<in> set ys \<Longrightarrow> b \<in> set ys \<Longrightarrow> position ys a = position ys b
     \<Longrightarrow> a = b"
  by (metis in_set_conv_nth position_nth)

lemma filter_eq_distinct:
  "distinct xs \<Longrightarrow> k \<in> set xs \<Longrightarrow> filter (\<lambda>x. k = x) xs = [k]"
proof (induction xs)
  case Nil
  then show ?case by simp
next
  case (Cons x xs)
  show ?case
  proof (cases "k = x")
    case True
    with Cons.prems have "filter (\<lambda>x. k = x) xs = []"
      by (auto simp: filter_empty_conv)
    with True show ?thesis by simp
  next
    case False
    with Cons show ?thesis by simp
  qed
qed

lemma order_by_reaches:
  assumes "set ys = set xs" and "distinct xs" and "distinct ys" and "sorted (map key ys)"
  shows "order_by (position ys) key xs = ys"
  unfolding order_by_def
proof (rule properties_for_sort_key)
  show "mset ys = mset xs"
    using assms(1,2,3) by (simp add: set_eq_iff_mset_eq_distinct)
next
  fix k assume k: "k \<in> set ys"
  have "filter (\<lambda>x. (key k, position ys k) = (key x, position ys x)) ys
          = filter (\<lambda>x. k = x) ys"
    by (rule filter_cong) (use k assms(3) position_inj in auto)
  moreover have "filter (\<lambda>x. (key k, position ys k) = (key x, position ys x)) xs
          = filter (\<lambda>x. k = x) xs"
    by (rule filter_cong) (use k assms(1,3) position_inj[of ys k] in auto)
  moreover have "filter (\<lambda>x. k = x) ys = [k]" "filter (\<lambda>x. k = x) xs = [k]"
    using k assms(1,2,3) by (simp_all add: filter_eq_distinct)
  ultimately show "filter (\<lambda>x. (key k, position ys k) = (key x, position ys x)) ys
      = filter (\<lambda>x. (key k, position ys k) = (key x, position ys x)) xs"
    by simp
next
  show "sorted (map (\<lambda>row. (key row, position ys row)) ys)"
    unfolding sorted_iff_nth_mono
  proof (intro allI impI)
    fix i j assume ij: "i \<le> j" "j < length (map (\<lambda>row. (key row, position ys row)) ys)"
    then have "key (ys ! i) \<le> key (ys ! j)"
      using assms(4) by (simp add: sorted_iff_nth_mono)
    then show "map (\<lambda>row. (key row, position ys row)) ys ! i
                 \<le> map (\<lambda>row. (key row, position ys row)) ys ! j"
      using ij position_nth[OF assms(3)] by (auto simp: less_eq_prod_def)
  qed
qed



text \<open>The rows that pass the conditions of the fallback statement.\<close>

lemma fallback_query_Inr:
  "fallback_query tie db conditions k = Inr rows \<longleftrightarrow>
     list_all binds conditions \<and> 0 \<le> k \<and> k \<le> 9223372036854775807
     \<and> rows = map fallback_select (take (nat k)
          (order_by tie (\<lambda>row. nulls_last (map_option i_unit_price (j_i row)))
             (filter (\<lambda>row. list_all (\<lambda>c. holds c row) conditions) (fallback_from db))))"
  by (auto simp: fallback_query_def and_then_Inr where_clause_Inr limit_Inr int8_of_int)

section \<open>Facts about getFallbackRecommendations\<close>

lemma getFallbackRecommendations_Inr:
  "getFallbackRecommendations w body = Inr recs \<longleftrightarrow>
     (\<exists>db. global_db w = Some db \<and> \<not> rejects w Fallback_select
        \<and> list_all binds (fallback_conditions (user_preferences body))
        \<and> 0 \<le> top_k body \<and> top_k body \<le> 9223372036854775807
        \<and> recs = map (fallback_recommendation \<circ> fallback_select)
             (take (nat (top_k body))
               (order_by (tie_rank w) (\<lambda>row. nulls_last (map_option i_unit_price (j_i row)))
                 (qualifying db (user_preferences body)))))"
  by (auto simp: getFallbackRecommendations_def Let_def and_then_Inr db_query_Inr
       fallback_query_Inr qualifying_def split: option.splits)






lemma qualifying_from:
  "row \<in> set (qualifying db prefs) \<Longrightarrow> row \<in> set (fallback_from db)"
  by (auto simp: qualifying_def)



lemma fallback_recommendation_reads:
  "spec_id (fallback_recommendation (fallback_select row)) = Uuid (lm_model_id (j_lm row))"
  "relevance_score (fallback_recommendation (fallback_select row)) = Some (1 / 2)"
  "rec_price (fallback_recommendation (fallback_select row)) = map_option i_unit_price (j_i row)"
  "rec_ram_gb (fallback_recommendation (fallback_select row)) = Some (hs_ram_gb (j_hs row))"
  "rec_gpu_type (fallback_recommendation (fallback_select row)) = Some (hs_gpu_type (j_hs row))"
  "rec_model_name (fallback_recommendation (fallback_select row))
     = Some (lm_model_name (j_lm row))"
  by (simp_all add: fallback_recommendation_def fallback_select_def empty_row_def
        uuid_param_of_def rec_price_def rec_ram_gb_def rec_gpu_type_def rec_model_name_def
        opt_chain_def)


lemma fallback_list_Inr:
  "getFallbackRecommendations w body = Inr recs \<Longrightarrow> fallback_list w body = recs"
  by (simp add: fallback_list_def)

lemma fallback_from_offer: "row \<in> set (fallback_from db) \<Longrightarrow> j_i row \<noteq> None"
  by (auto simp: fallback_from_def)

lemma sorted_offer_price:
  assumes "\<forall>row \<in> set rows. j_i row \<noteq> None"
    and "sorted (map (\<lambda>row. nulls_last (map_option i_unit_price (j_i row))) rows)"
  shows "sorted (map offer_price rows)"
proof -
  have "sorted_wrt (\<lambda>x y. nulls_last (map_option i_unit_price (j_i x))
                          \<le> nulls_last (map_option i_unit_price (j_i y))) rows"
    using assms(2) by (simp add: sorted_map)
  then have "sorted_wrt (\<lambda>x y. offer_price x \<le> offer_price y) rows"
  proof (rule sorted_wrt_mono_rel[rotated])
    fix x y assume "x \<in> set rows" "y \<in> set rows"
      and le: "nulls_last (map_option i_unit_price (j_i x))
                 \<le> nulls_last (map_option i_unit_price (j_i y))"
    then obtain a b where "j_i x = Some a" "j_i y = Some b"
      using assms(1) by fastforce
    then show "offer_price x \<le> offer_price y"
      using le by (simp add: nulls_last_def offer_price_def less_eq_prod_def)
  qed
  then show ?thesis by (simp add: sorted_map)
qed

section \<open>Facts about POST /\<close>

lemma promise_all_map_Inr: "promise_all (map Inr xs) = Inr xs"
  by (induction xs) simp_all

lemma promise_all_Inr:
  "promise_all ps = Inr xs \<longleftrightarrow> ps = map Inr xs"
proof
  show "promise_all ps = Inr xs \<Longrightarrow> ps = map Inr xs"
    by (induction ps arbitrary: xs) (auto split: sum.splits)
  show "ps = map Inr xs \<Longrightarrow> promise_all ps = Inr xs"
    by (simp add: promise_all_map_Inr)
qed

lemma promise_all_length: "promise_all ps = Inr xs \<Longrightarrow> length xs = length ps"
  by (simp add: promise_all_Inr)

lemma primary_path_Inr:
  "primary_path w db body = Inr out \<longleftrightarrow>
     (\<exists>aiData recs enriched.
        ai_service w body = Response_json aiData \<and> ai_recommendations aiData = Some recs
        \<and> promise_all (map (enrich w db) recs) = Inr enriched
        \<and> out = \<lparr> reply = Sent (primary_response w body enriched),
                  log = fst (store_recommendations w aiData (user_preferences body) enriched),
                  stored = snd (store_recommendations w aiData (user_preferences body) enriched) \<rparr>)"
  by (auto simp: primary_path_def and_then_Inr Let_def split_beta primary_response_def
        split: ai_fetch.splits option.splits)

lemma recommendations_post_Sent:
  "reply (recommendations_post w request) = Sent resp \<longleftrightarrow>
     (\<exists>db body. pool w = Some db \<and> recommendationSchema_parse request = Inr body
        \<and> ((\<exists>out. primary_path w db body = Inr out \<and> reply out = Sent resp)
           \<or> (\<exists>e recs. primary_path w db body = Inl e
                \<and> getFallbackRecommendations w body = Inr recs
                \<and> resp = fallback_response w body recs)))"
  by (auto simp: recommendations_post_def fallback_response_def fallback_note_def
        split: option.splits sum.splits)

lemma recommendations_post_fallback_fails:
  "pool w = Some db \<Longrightarrow> recommendationSchema_parse request = Inr body
   \<Longrightarrow> primary_path w db body = Inl e \<Longrightarrow> getFallbackRecommendations w body = Inl e'
   \<Longrightarrow> reply (recommendations_post w request) = Failed e'"
  by (simp add: recommendations_post_def)

lemma z_top_k_range: "z_top_k v = Inr k \<Longrightarrow> 1 \<le> k \<and> k \<le> 20"
  by (auto simp: z_top_k_def split: option.splits json.splits if_splits)

lemma recommendationSchema_parse_Inr:
  "recommendationSchema_parse request = Inr body \<longleftrightarrow>
     (\<exists>props. request = Some (JObj props)
        \<and> parse_user_preferences (property props ''user_preferences'')
            = Inr (user_preferences body)
        \<and> z_top_k (property props ''top_k'') = Inr (top_k body))"
  by (cases body)
     (auto simp: recommendationSchema_parse_def and_then_Inr split: option.splits json.splits)

lemma db_query_with_insert_outcomes:
  "db_query (with_insert_outcomes w fails) (Enrichment_select p) result
     = db_query w (Enrichment_select p) result"
  "db_query (with_insert_outcomes w fails) Fallback_select result
     = db_query w Fallback_select result"
  by (simp_all add: db_query_def with_insert_outcomes_def)

lemma enrich_with_insert_outcomes:
  "enrich (with_insert_outcomes w fails) db element = enrich w db element"
  by (simp add: enrich_def db_query_with_insert_outcomes split: option.splits)

lemma primary_reply_with_insert_outcomes:
  "map_sum id reply (primary_path (with_insert_outcomes w fails) db body)
     = map_sum id reply (primary_path w db body)"
proof -
  have e: "enrich (with_insert_outcomes w fails) db = enrich w db"
    using enrich_with_insert_outcomes by blast
  have a: "ai_service (with_insert_outcomes w fails) = ai_service w"
    "clock (with_insert_outcomes w fails) = clock w"
    by (simp_all add: with_insert_outcomes_def)
  show ?thesis
    unfolding primary_path_def e a
    by (simp add: and_then_def Let_def split_beta split: ai_fetch.splits option.splits sum.splits)
qed

lemma fallback_with_insert_outcomes:
  "getFallbackRecommendations (with_insert_outcomes w fails) body
     = getFallbackRecommendations w body"
proof -
  have "global_db (with_insert_outcomes w fails) = global_db w"
    "tie_rank (with_insert_outcomes w fails) = tie_rank w"
    by (simp_all add: with_insert_outcomes_def)
  then show ?thesis
    unfolding getFallbackRecommendations_def
    by (simp add: db_query_with_insert_outcomes split: option.splits)
qed

lemma store_recommendations_warnings:
  "fst (store_recommendations w aiData prefs recs)
     = replicate
         (length (filter (\<lambda>rec. rejects w (Recommendation_insert (insert_values aiData prefs rec)))
                    recs))
         (Log_warn ''Failed to store recommendation'')"
  by (induction recs) (simp_all add: Let_def split_beta)

lemma fallback_unbound_db:
  "global_db w = None \<Longrightarrow>
     getFallbackRecommendations w body = Inl (Reference_error ''db is not defined'')"
  by (simp add: getFallbackRecommendations_def)

text \<open>When the identifier \<open>db\<close> is bound and the statement runs, a failure of the
  primary path ends in the response of the fallback.\<close>

lemma post_falls_back:
  "pool w = Some db \<Longrightarrow> recommendationSchema_parse request = Inr body
   \<Longrightarrow> primary_path w db body = Inl e \<Longrightarrow> getFallbackRecommendations w body = Inr recs
   \<Longrightarrow> recommendations_post w request
       = \<lparr> reply = Sent (fallback_response w body recs),
           log = [Log_error ''Recommendation error:'' e], stored = [] \<rparr>"
  by (simp add: recommendations_post_def fallback_response_def fallback_note_def)

text \<open>With the identifier unbound, every failure of the primary path ends in the
  \<open>ReferenceError\<close>.\<close>

lemma post_unbound_db:
  "pool w = Some db \<Longrightarrow> recommendationSchema_parse request = Inr body
   \<Longrightarrow> primary_path w db body = Inl e \<Longrightarrow> global_db w = None
   \<Longrightarrow> reply (recommendations_post w request) = Failed (Reference_error ''db is not defined'')"
  by (simp add: recommendations_post_fallback_fails fallback_unbound_db)

section \<open>Facts about the listings\<close>










section \<open>Facts about the schema\<close>

lemma and_then_succeeds:
  "(\<exists>y. and_then r f = Inr y) \<longleftrightarrow> (\<exists>x. r = Inr x \<and> (\<exists>y. f x = Inr y))"
  by (cases r) (simp_all add: and_then_def)

lemma find_name:
  "(\<exists>x. find (\<lambda>x. name x = t) options = Some x) \<longleftrightarrow> t \<in> set (map name options)"
  by (induction options) auto

lemma z_enum_succeeds:
  "(\<exists>x. z_enum name options v = Inr x) \<longleftrightarrow> one_of (map name options) v"
proof (cases v)
  case None
  then show ?thesis by (simp add: z_enum_def one_of_def)
next
  case (Some j)
  show ?thesis
  proof (cases j)
    case (JStr t)
    have "(\<exists>x. (case find (\<lambda>x. name x = t) options of
                    None \<Rightarrow> Inl Zod_error | Some x \<Rightarrow> Inr x) = Inr x)
            \<longleftrightarrow> (\<exists>x. find (\<lambda>x. name x = t) options = Some x)"
      by (cases "find (\<lambda>x. name x = t) options") simp_all
    then show ?thesis
      using find_name[of name t options] by (simp add: z_enum_def one_of_def Some JStr)
  qed (simp_all add: z_enum_def one_of_def Some)
qed

lemma z_enum_optional_succeeds:
  "(\<exists>x. z_enum_optional name options v = Inr x) \<longleftrightarrow> one_of_or_absent (map name options) v"
proof (cases v)
  case None
  then show ?thesis by (simp add: z_enum_optional_def one_of_or_absent_def)
next
  case (Some j)
  have "(\<exists>x. z_enum_optional name options (Some j) = Inr x)
          \<longleftrightarrow> (\<exists>y. z_enum name options (Some j) = Inr y)"
    by (cases "z_enum name options (Some j)") (simp_all add: z_enum_optional_def and_then_def)
  then show ?thesis
    using z_enum_succeeds[of name options "Some j"] by (simp add: Some one_of_or_absent_def)
qed

lemma z_number_optional_succeeds:
  "(\<exists>x. z_number_optional v = Inr x) \<longleftrightarrow> number_or_absent v"
  by (auto simp: z_number_optional_def number_or_absent_def split: option.splits json.splits)

lemma z_boolean_optional_succeeds:
  "(\<exists>x. z_boolean_optional v = Inr x) \<longleftrightarrow> boolean_or_absent v"
  by (auto simp: z_boolean_optional_def boolean_or_absent_def split: option.splits json.splits)

lemma parse_user_preferences_succeeds:
  "(\<exists>prefs. parse_user_preferences (Some (JObj props)) = Inr prefs)
     \<longleftrightarrow> accepted_preferences props"
  unfolding parse_user_preferences_def accepted_preferences_def
  by (simp add: and_then_succeeds z_number_optional_succeeds z_boolean_optional_succeeds
        z_enum_succeeds z_enum_optional_succeeds)

lemma parse_user_preferences_fields:
  assumes "parse_user_preferences (Some (JObj props)) = Inr prefs"
  shows "z_number_optional (property props ''min_budget'') = Inr (min_budget prefs)"
    "z_number_optional (property props ''max_budget'') = Inr (max_budget prefs)"
    "z_enum usage_name usages (property props ''primary_usage'') = Inr (primary_usage prefs)"
    "z_number_optional (property props ''min_ram_gb'') = Inr (min_ram_gb prefs)"
    "z_number_optional (property props ''min_storage_gb'') = Inr (min_storage_gb prefs)"
    "z_enum_optional gpu_class_name gpu_classes (property props ''preferred_gpu_type'')
       = Inr (preferred_gpu_type prefs)"
    "z_number_optional (property props ''min_display_size'') = Inr (min_display_size prefs)"
    "z_number_optional (property props ''max_weight_kg'') = Inr (max_weight_kg prefs)"
    "z_boolean_optional (property props ''prefer_thin_and_light'')
       = Inr (prefer_thin_and_light prefs)"
  using assms unfolding parse_user_preferences_def
  by (auto simp: and_then_Inr)

lemma parse_user_preferences_cong:
  assumes "\<forall>n \<in> set preference_names. property props' n = property props n"
  shows "parse_user_preferences (Some (JObj props')) = parse_user_preferences (Some (JObj props))"
  using assms unfolding parse_user_preferences_def preference_names_def
  by simp

section \<open>The order of the primary path\<close>

lemma enrich_spec_id:
  "enrich w db element = Inr x \<Longrightarrow> map_option spec_id element = Some (spec_id x)"
  by (cases element) (auto simp: enrich_def and_then_Inr)

lemma enriched_order:
  "map (enrich w db) recs = map Inr enriched \<Longrightarrow>
     map (\<lambda>r. Some (spec_id r)) enriched = map (map_option spec_id) recs"
proof (induction recs arbitrary: enriched)
  case Nil
  then show ?case by simp
next
  case (Cons element recs)
  then obtain x xs where e: "enriched = x # xs" "enrich w db element = Inr x"
    "map (enrich w db) recs = map Inr xs"
    by (cases enriched) auto
  show ?case
    using Cons.IH[OF e(3)] enrich_spec_id[OF e(2)] by (auto simp: e(1))
qed

section \<open>The gateway with the identifier unbound and the enrichment refused\<close>









section \<open>What the primary path forwards\<close>

lemma enrich_forwards:
  "enrich w db element = Inr x \<Longrightarrow> map_option without_laptop element = Some (without_laptop x)"
  by (cases element) (auto simp: enrich_def and_then_Inr without_laptop_def)

lemma enriched_forwarded:
  "map (enrich w db) recs = map Inr enriched \<Longrightarrow>
     map (\<lambda>r. Some (without_laptop r)) enriched = map (map_option without_laptop) recs"
proof (induction recs arbitrary: enriched)
  case Nil
  then show ?case by simp
next
  case (Cons element recs)
  then obtain x xs where e: "enriched = x # xs" "enrich w db element = Inr x"
    "map (enrich w db) recs = map Inr xs"
    by (cases enriched) auto
  show ?case
    using Cons.IH[OF e(3)] enrich_forwards[OF e(2)] by (auto simp: e(1))
qed

lemma fallback_entries_plain:
  "getFallbackRecommendations w body = Inr recs \<Longrightarrow>
     list_all (\<lambda>r. other_properties r = []) recs"
  unfolding getFallbackRecommendations_Inr
  by (auto simp: list_all_iff fallback_recommendation_def)

section \<open>The size of the list\<close>

text \<open>\<open>top_k\<close> is the number that the request gives, an integer from 1 to 20, and 5 when
  the request gives none.\<close>

lemma top_k_as_sent:
  assumes "recommendationSchema_parse (Some (JObj props)) = Inr body"
  shows "(property props ''top_k'' = None \<and> top_k body = 5)
         \<or> (property props ''top_k'' = Some (JNum (of_int (top_k body)))
            \<and> 1 \<le> top_k body \<and> top_k body \<le> 20)"
proof -
  have k: "z_top_k (property props ''top_k'') = Inr (top_k body)"
    using assms unfolding recommendationSchema_parse_Inr by auto
  show ?thesis
  proof (cases "property props ''top_k''")
    case None
    with k show ?thesis by (simp add: z_top_k_def)
  next
    case (Some v)
    with k obtain x where v: "v = JNum x" and x: "x = of_int \<lfloor>x\<rfloor>" "1 \<le> x" "x \<le> 20"
      and b: "top_k body = \<lfloor>x\<rfloor>"
      by (auto simp: z_top_k_def split: json.splits if_splits)
    have "1 \<le> \<lfloor>x\<rfloor>" "\<lfloor>x\<rfloor> \<le> 20"
      using x(2,3) by linarith+
    with Some v x(1) b show ?thesis by simp
  qed
qed

text \<open>When the identifier \<open>db\<close> is bound and the statement runs, the fallback returns
  \<open>top_k\<close> entries or, when fewer rows qualify, one entry for each qualifying row.\<close>

lemma fallback_length:
  assumes "getFallbackRecommendations w body = Inr recs"
  shows "\<exists>db. global_db w = Some db
           \<and> length recs = min (nat (top_k body)) (length (qualifying db (user_preferences body)))"
  using assms unfolding getFallbackRecommendations_Inr by (auto simp: min.commute)

section \<open>The rows of the statements\<close>




section \<open>The statements on the small catalog\<close>

text \<open>The fallback statement has no condition on the minimum budget: for a minimum
  budget of 100000 it selects an offer at 50000.\<close>

lemma fallback_statement_without_min_budget:
  "min_budget (user_preferences ex_body_min_budget) = Some 100000
   \<and> map row_min_price
       (listed (fallback_query scan_order ex_database
                  (fallback_conditions (user_preferences ex_body_min_budget)) 5))
       = [Some 50000, Some 150000, Some 150000]"
  by code_simp

text \<open>The fallback statement orders by the unit price alone: the order of two offers at
  the same price is the engine's.\<close>

lemma fallback_statement_tie_order:
  "map row_model_name
     (listed (fallback_query scan_order ex_database (fallback_conditions ex_preferences) 5))
     = [Some ''Basic'', Some ''Zeta'', Some ''Alpha'']
   \<and> map row_model_name
       (listed (fallback_query name_order ex_database (fallback_conditions ex_preferences) 5))
       = [Some ''Basic'', Some ''Alpha'', Some ''Zeta'']"
  by code_simp

text \<open>The primary path returns one entry for each recommendation of the AI service and
  cuts nothing.\<close>

lemma primary_list_length:
  assumes "primary_path w db body = Inr out" and "ai_service w body = Response_json aiData"
    and "ai_recommendations aiData = Some recs"
  shows "length (reply_list (reply out)) = length recs"
proof -
  obtain enriched where all: "promise_all (map (enrich w db) recs) = Inr enriched"
    and out: "reply out = Sent (primary_response w body enriched)"
    using assms unfolding primary_path_Inr by auto
  show ?thesis
    using promise_all_length[OF all] by (simp add: out reply_list_def primary_response_def)
qed

section \<open>Hard constraints\<close>



section \<open>Score and order of the fallback\<close>

text \<open>
  C3. Every candidate that the fallback returns has the relevance score 0.5, and the
  candidates are in ascending order of the unit price of their offers.
\<close>

theorem fallback_score_and_order:
  assumes "getFallbackRecommendations w body = Inr recs"
  shows "(\<forall>rec \<in> set recs. relevance_score rec = Some (1 / 2))
         \<and> (\<exists>prices. map rec_price recs = map Some prices \<and> sorted prices)"
proof -
  define key where "key = (\<lambda>row :: joined. nulls_last (map_option i_unit_price (j_i row)))"
  obtain db where recs: "recs = map (fallback_recommendation \<circ> fallback_select)
             (take (nat (top_k body))
                (order_by (tie_rank w) key (qualifying db (user_preferences body))))"
    using assms unfolding getFallbackRecommendations_Inr key_def by blast
  define rows where
    "rows = take (nat (top_k body))
              (order_by (tie_rank w) key (qualifying db (user_preferences body)))"
  have offers: "\<forall>row \<in> set rows. j_i row \<noteq> None"
  proof
    fix row assume "row \<in> set rows"
    then have "row \<in> set (qualifying db (user_preferences body))"
      unfolding rows_def using set_take_subset set_order_by by fastforce
    then show "j_i row \<noteq> None"
      using qualifying_from fallback_from_offer by blast
  qed
  have "sorted (map key rows)"
    unfolding rows_def using sorted_order_by[of key "tie_rank w"]
    by (simp add: take_map[symmetric] sorted_wrt_take)
  then have sorted: "sorted (map offer_price rows)"
    using sorted_offer_price[OF offers] by (simp add: key_def)
  have prices: "map rec_price recs = map Some (map offer_price rows)"
    using offers unfolding recs rows_def[symmetric]
    by (auto simp: fallback_recommendation_reads offer_price_def)
  have score: "\<forall>rec \<in> set recs. relevance_score rec = Some (1 / 2)"
    unfolding recs by (auto simp: fallback_recommendation_reads)
  show ?thesis using score prices sorted by blast
qed

theorem fallback_score_and_order_witness:
  "getFallbackRecommendations ex_world ex_body = Inr (fallback_list ex_world ex_body)
   \<and> fallback_prices ex_world ex_body = Inr [Some 50000, Some 150000, Some 150000]
   \<and> map relevance_score (fallback_list ex_world ex_body)
       = [Some (1 / 2), Some (1 / 2), Some (1 / 2)]
   \<and> (\<exists>prices. map rec_price (fallback_list ex_world ex_body) = map Some prices
         \<and> sorted prices)"
proof -
  have h1: "getFallbackRecommendations ex_world ex_body = Inr (fallback_list ex_world ex_body)"
    by code_simp
  have h2: "fallback_prices ex_world ex_body = Inr [Some 50000, Some 150000, Some 150000]"
    by code_simp
  have h3: "map relevance_score (fallback_list ex_world ex_body)
       = [Some (1 / 2), Some (1 / 2), Some (1 / 2)]"
    by code_simp
  show ?thesis
    using fallback_score_and_order[OF h1] h1 h2 h3 by blast
qed

section \<open>The size of the returned list\<close>

text \<open>
  C5 says that a request for which fewer than \<open>top_k\<close> items qualify is answered with
  exactly the qualifying items. The request for a dedicated GPU gives no \<open>top_k\<close>, so
  \<open>top_k\<close> is 5, and two offers of the catalog qualify. In the module as it is written,
  on PostgreSQL, the request is answered with the \<open>ReferenceError\<close> of the fallback,
  both when the AI service cannot be reached and when it answers with the two
  candidates: the two items are not returned.
\<close>

theorem post_two_qualifying_reference_error:
  "recommendationSchema_parse (Some ex_request_dedicated) = Inr ex_body_dedicated
   \<and> top_k ex_body_dedicated = 5
   \<and> map (\<lambda>row. lm_model_name (j_lm row))
       (qualifying ex_database (user_preferences ex_body_dedicated)) = [''Zeta'', ''Alpha'']
   \<and> reply (recommendations_post (ex_gateway ai_unreachable scan_order)
              (Some ex_request_dedicated))
       = Failed (Reference_error ''db is not defined'')
   \<and> reply (recommendations_post (ex_gateway ai_two_recommendations scan_order)
              (Some ex_request_dedicated))
       = Failed (Reference_error ''db is not defined'')"
  by code_simp

section \<open>Discontinued models\<close>




section \<open>What the request may leave out\<close>

text \<open>
  C4, as the code has it. The object \<open>user_preferences\<close> is accepted exactly when its
  usage is one of the eight texts and each of the other eight preferences is absent or
  of its type. An absent preference is \<open>undefined\<close> in the parsed body: no preference.
  The parsed body depends on the nine named properties alone, so properties under other
  names are dropped. A request without the usage, or with a preference of the wrong
  type, is rejected.
\<close>

theorem preferences_schema:
  "((\<exists>prefs. parse_user_preferences (Some (JObj props)) = Inr prefs)
      \<longleftrightarrow> accepted_preferences props)
   \<and> (parse_user_preferences (Some (JObj props)) = Inr prefs \<longrightarrow>
        (property props ''min_budget'' = None \<longrightarrow> min_budget prefs = None)
        \<and> (property props ''max_budget'' = None \<longrightarrow> max_budget prefs = None)
        \<and> (property props ''min_ram_gb'' = None \<longrightarrow> min_ram_gb prefs = None)
        \<and> (property props ''min_storage_gb'' = None \<longrightarrow> min_storage_gb prefs = None)
        \<and> (property props ''preferred_gpu_type'' = None \<longrightarrow> preferred_gpu_type prefs = None)
        \<and> (property props ''min_display_size'' = None \<longrightarrow> min_display_size prefs = None)
        \<and> (property props ''max_weight_kg'' = None \<longrightarrow> max_weight_kg prefs = None)
        \<and> (property props ''prefer_thin_and_light'' = None
              \<longrightarrow> prefer_thin_and_light prefs = None))
   \<and> (list_all (\<lambda>n. property props' n = property props n) preference_names \<longrightarrow>
        parse_user_preferences (Some (JObj props'))
          = parse_user_preferences (Some (JObj props)))"
proof -
  have accepted: "(\<exists>prefs. parse_user_preferences (Some (JObj props)) = Inr prefs)
      \<longleftrightarrow> accepted_preferences props"
    by (rule parse_user_preferences_succeeds)
  have named: "list_all (\<lambda>n. property props' n = property props n) preference_names \<longrightarrow>
        parse_user_preferences (Some (JObj props'))
          = parse_user_preferences (Some (JObj props))"
    using parse_user_preferences_cong by (simp add: list_all_iff)
  have absent: "parse_user_preferences (Some (JObj props)) = Inr prefs \<longrightarrow>
        (property props ''min_budget'' = None \<longrightarrow> min_budget prefs = None)
        \<and> (property props ''max_budget'' = None \<longrightarrow> max_budget prefs = None)
        \<and> (property props ''min_ram_gb'' = None \<longrightarrow> min_ram_gb prefs = None)
        \<and> (property props ''min_storage_gb'' = None \<longrightarrow> min_storage_gb prefs = None)
        \<and> (property props ''preferred_gpu_type'' = None \<longrightarrow> preferred_gpu_type prefs = None)
        \<and> (property props ''min_display_size'' = None \<longrightarrow> min_display_size prefs = None)
        \<and> (property props ''max_weight_kg'' = None \<longrightarrow> max_weight_kg prefs = None)
        \<and> (property props ''prefer_thin_and_light'' = None
              \<longrightarrow> prefer_thin_and_light prefs = None)"
  proof
    assume p: "parse_user_preferences (Some (JObj props)) = Inr prefs"
    note f = parse_user_preferences_fields[OF p]
    have 1: "property props ''min_budget'' = None \<longrightarrow> min_budget prefs = None"
      using f(1) by (auto simp: z_number_optional_def)
    have 2: "property props ''max_budget'' = None \<longrightarrow> max_budget prefs = None"
      using f(2) by (auto simp: z_number_optional_def)
    have 3: "property props ''min_ram_gb'' = None \<longrightarrow> min_ram_gb prefs = None"
      using f(4) by (auto simp: z_number_optional_def)
    have 4: "property props ''min_storage_gb'' = None \<longrightarrow> min_storage_gb prefs = None"
      using f(5) by (auto simp: z_number_optional_def)
    have 5: "property props ''preferred_gpu_type'' = None \<longrightarrow> preferred_gpu_type prefs = None"
      using f(6) by (auto simp: z_enum_optional_def)
    have 6: "property props ''min_display_size'' = None \<longrightarrow> min_display_size prefs = None"
      using f(7) by (auto simp: z_number_optional_def)
    have 7: "property props ''max_weight_kg'' = None \<longrightarrow> max_weight_kg prefs = None"
      using f(8) by (auto simp: z_number_optional_def)
    have 8: "property props ''prefer_thin_and_light'' = None
              \<longrightarrow> prefer_thin_and_light prefs = None"
      using f(9) by (auto simp: z_boolean_optional_def)
    from 1 2 3 4 5 6 7 8
    show "(property props ''min_budget'' = None \<longrightarrow> min_budget prefs = None)
        \<and> (property props ''max_budget'' = None \<longrightarrow> max_budget prefs = None)
        \<and> (property props ''min_ram_gb'' = None \<longrightarrow> min_ram_gb prefs = None)
        \<and> (property props ''min_storage_gb'' = None \<longrightarrow> min_storage_gb prefs = None)
        \<and> (property props ''preferred_gpu_type'' = None \<longrightarrow> preferred_gpu_type prefs = None)
        \<and> (property props ''min_display_size'' = None \<longrightarrow> min_display_size prefs = None)
        \<and> (property props ''max_weight_kg'' = None \<longrightarrow> max_weight_kg prefs = None)
        \<and> (property props ''prefer_thin_and_light'' = None
              \<longrightarrow> prefer_thin_and_light prefs = None)"
      by (intro conjI)
  qed
  from accepted absent named show ?thesis by (intro conjI)
qed

theorem preferences_schema_witness:
  "accepted_preferences ex_preference_props
   \<and> parse_user_preferences (Some (JObj ex_preference_props))
       = Inr (ex_preferences \<lparr> primary_usage := Student, max_budget := Some 150000 \<rparr>)
   \<and> property ex_preference_props ''min_ram_gb'' = None
   \<and> min_ram_gb (ex_preferences \<lparr> primary_usage := Student, max_budget := Some 150000 \<rparr>) = None
   \<and> list_all (\<lambda>n. property ((''colour'', JStr ''red'') # ex_preference_props) n
                         = property ex_preference_props n) preference_names
   \<and> parse_user_preferences (Some (JObj ((''colour'', JStr ''red'') # ex_preference_props)))
       = parse_user_preferences (Some (JObj ex_preference_props))"
proof -
  have h1: "parse_user_preferences (Some (JObj ex_preference_props))
       = Inr (ex_preferences \<lparr> primary_usage := Student, max_budget := Some 150000 \<rparr>)"
    by code_simp
  have h2: "property ex_preference_props ''min_ram_gb'' = None"
    by code_simp
  have h3: "list_all (\<lambda>n. property ((''colour'', JStr ''red'') # ex_preference_props) n
                         = property ex_preference_props n) preference_names"
    by code_simp
  show ?thesis
    using preferences_schema
            [of ex_preference_props
                "ex_preferences \<lparr> primary_usage := Student, max_budget := Some 150000 \<rparr>"
                "(''colour'', JStr ''red'') # ex_preference_props"]
          h1 h2 h3
    by blast
qed

text \<open>
  C4 as stated fails: a request without \<open>primary_usage\<close> and a request whose
  \<open>min_ram_gb\<close> is a text make \<open>parse\<close> throw, and the route answers with the error.
\<close>

theorem preferences_rejected_counterexample:
  "recommendationSchema_parse (Some ex_request_no_usage) = Inl Zod_error
   \<and> reply (recommendations_post ex_world (Some ex_request_no_usage)) = Failed Zod_error
   \<and> recommendationSchema_parse (Some ex_request_malformed) = Inl Zod_error
   \<and> reply (recommendations_post ex_world (Some ex_request_malformed)) = Failed Zod_error"
  by code_simp

section \<open>Ties and determinism\<close>



section \<open>A failed insert does not reach the caller\<close>

text \<open>
  C8. Whether the inserts into \<open>recommendations\<close> fail or not, the reply of the route is
  the same; each insert that fails leaves one warning in the log and nothing else.
\<close>

theorem insert_failures_do_not_reach_the_reply:
  "reply (recommendations_post (with_insert_outcomes w fails) request)
     = reply (recommendations_post w request)
   \<and> fst (store_recommendations w aiData prefs recs)
       = replicate
           (length (filter (\<lambda>rec. rejects w (Recommendation_insert (insert_values aiData prefs rec)))
                      recs))
           (Log_warn ''Failed to store recommendation'')"
proof -
  have p: "pool (with_insert_outcomes w fails) = pool w"
    "clock (with_insert_outcomes w fails) = clock w"
    by (simp_all add: with_insert_outcomes_def)
  have "reply (recommendations_post (with_insert_outcomes w fails) request)
     = reply (recommendations_post w request)"
  proof (cases "pool w")
    case None
    then show ?thesis by (simp add: recommendations_post_def p)
  next
    case (Some db)
    show ?thesis
    proof (cases "recommendationSchema_parse request")
      case (Inl e)
      then show ?thesis by (simp add: recommendations_post_def p Some)
    next
      case (Inr body)
      have "map_sum id reply (primary_path (with_insert_outcomes w fails) db body)
              = map_sum id reply (primary_path w db body)"
        by (rule primary_reply_with_insert_outcomes)
      then show ?thesis
        unfolding recommendations_post_def p Some Inr fallback_with_insert_outcomes
        by (cases "primary_path (with_insert_outcomes w fails) db body";
            cases "primary_path w db body"; simp split: sum.splits)
    qed
  qed
  then show ?thesis
    using store_recommendations_warnings by blast
qed

text \<open>The same request with the insert accepted and with the insert rejected.\<close>

theorem insert_failures_do_not_reach_the_reply_witness:
  "stored (recommendations_post ex_ai_world (Some ex_request)) \<noteq> []
   \<and> log (recommendations_post ex_ai_world (Some ex_request)) = []
   \<and> stored (recommendations_post (with_insert_outcomes ex_ai_world (\<lambda>v. True))
               (Some ex_request)) = []
   \<and> log (recommendations_post (with_insert_outcomes ex_ai_world (\<lambda>v. True))
            (Some ex_request)) = [Log_warn ''Failed to store recommendation'']
   \<and> reply (recommendations_post (with_insert_outcomes ex_ai_world (\<lambda>v. True))
              (Some ex_request))
       = reply (recommendations_post ex_ai_world (Some ex_request))"
proof -
  have h1: "stored (recommendations_post ex_ai_world (Some ex_request)) \<noteq> []"
    by code_simp
  have h2: "log (recommendations_post ex_ai_world (Some ex_request)) = []"
    by code_simp
  have h3: "stored (recommendations_post (with_insert_outcomes ex_ai_world (\<lambda>v. True))
               (Some ex_request)) = []"
    by code_simp
  have h4: "log (recommendations_post (with_insert_outcomes ex_ai_world (\<lambda>v. True))
            (Some ex_request)) = [Log_warn ''Failed to store recommendation'']"
    by code_simp
  show ?thesis
    using insert_failures_do_not_reach_the_reply
            [of ex_ai_world "\<lambda>v. True" "Some ex_request"] h1 h2 h3 h4
    by blast
qed

section \<open>The fallback as the module has it\<close>

text \<open>
  C2 says that a failure of the primary path ends in a successful response with the
  list of the fallback. In the module as it is written the identifier \<open>db\<close> of
  \<open>getFallbackRecommendations\<close> is unbound, so the fallback throws: with the AI service
  out of reach, a valid request is answered with the error.
\<close>

theorem post_fallback_reference_error:
  "reply (recommendations_post ex_module_world (Some ex_request))
     = Failed (Reference_error ''db is not defined'')"
  by code_simp

section \<open>How a response shows its path\<close>

text \<open>
  C7, as the code has it. The gateway adds no flag with the value primary or fallback.
  A response of the primary path carries no note, and each entry of its list is the
  entry of the AI service with the property \<open>laptop\<close> set: every other property is as
  the service sent it. A response of the fallback path carries the note
  \<open>Fallback recommendations (AI service unavailable)\<close> and the list that
  \<open>getFallbackRecommendations\<close> returned, whose entries have the properties \<open>spec_id\<close>,
  \<open>relevance_score\<close>, \<open>laptop\<close> and \<open>matched_features\<close> and no other. So the presence of
  the note tells the two paths apart.
\<close>

theorem note_marks_the_fallback:
  assumes "reply (recommendations_post w request) = Sent resp"
  shows "\<exists>db body. pool w = Some db \<and> recommendationSchema_parse request = Inr body
      \<and> (case primary_path w db body of
            Inr out \<Rightarrow>
              reply out = Sent resp \<and> data_note resp = None
              \<and> (\<exists>aiData recs.
                    ai_service w body = Response_json aiData
                    \<and> ai_recommendations aiData = Some recs
                    \<and> map (\<lambda>r. Some (without_laptop r)) (data_recommendations resp)
                        = map (map_option without_laptop) recs)
          | Inl e \<Rightarrow>
              getFallbackRecommendations w body = Inr (data_recommendations resp)
              \<and> data_note resp = Some fallback_note
              \<and> list_all (\<lambda>r. other_properties r = []) (data_recommendations resp))"
proof -
  obtain db body where pool: "pool w = Some db"
    and parse: "recommendationSchema_parse request = Inr body"
    and paths: "(\<exists>out. primary_path w db body = Inr out \<and> reply out = Sent resp)
           \<or> (\<exists>e recs. primary_path w db body = Inl e
                \<and> getFallbackRecommendations w body = Inr recs
                \<and> resp = fallback_response w body recs)"
    using assms(1) unfolding recommendations_post_Sent by blast
  from paths have "case primary_path w db body of
            Inr out \<Rightarrow>
              reply out = Sent resp \<and> data_note resp = None
              \<and> (\<exists>aiData recs.
                    ai_service w body = Response_json aiData
                    \<and> ai_recommendations aiData = Some recs
                    \<and> map (\<lambda>r. Some (without_laptop r)) (data_recommendations resp)
                        = map (map_option without_laptop) recs)
          | Inl e \<Rightarrow>
              getFallbackRecommendations w body = Inr (data_recommendations resp)
              \<and> data_note resp = Some fallback_note
              \<and> list_all (\<lambda>r. other_properties r = []) (data_recommendations resp)"
  proof
    assume "\<exists>out. primary_path w db body = Inr out \<and> reply out = Sent resp"
    then obtain out where out: "primary_path w db body = Inr out" "reply out = Sent resp"
      by blast
    then obtain aiData recs enriched where
      ai: "ai_service w body = Response_json aiData" "ai_recommendations aiData = Some recs"
      and all: "promise_all (map (enrich w db) recs) = Inr enriched"
      and resp: "resp = primary_response w body enriched"
      unfolding primary_path_Inr by auto
    have "map (enrich w db) recs = map Inr enriched"
      using all by (simp add: promise_all_Inr)
    then have "map (\<lambda>r. Some (without_laptop r)) (data_recommendations resp)
                 = map (map_option without_laptop) recs"
      using enriched_forwarded by (simp add: resp primary_response_def)
    moreover have "data_note resp = None"
      by (simp add: resp primary_response_def)
    ultimately show ?thesis
      using out ai by auto
  next
    assume "\<exists>e recs. primary_path w db body = Inl e
                \<and> getFallbackRecommendations w body = Inr recs
                \<and> resp = fallback_response w body recs"
    then obtain e recs where e: "primary_path w db body = Inl e"
      and recs: "getFallbackRecommendations w body = Inr recs"
      and resp: "resp = fallback_response w body recs"
      by blast
    show ?thesis
      using recs fallback_entries_plain[OF recs] by (simp add: e resp fallback_response_def)
  qed
  with pool parse show ?thesis by blast
qed

text \<open>The response of the gateway as it runs, for an AI service that answers with an
  empty list.\<close>

theorem note_marks_the_fallback_witness:
  "reply (recommendations_post (ex_gateway ai_empty_list scan_order) (Some ex_request))
     = Sent (primary_response (ex_gateway ai_empty_list scan_order) ex_body [])
   \<and> primary_path (ex_gateway ai_empty_list scan_order) ex_database ex_body
       = Inr (recommendations_post (ex_gateway ai_empty_list scan_order) (Some ex_request))
   \<and> data_note (primary_response (ex_gateway ai_empty_list scan_order) ex_body []) = None
   \<and> (\<exists>aiData recs.
         ai_service (ex_gateway ai_empty_list scan_order) ex_body = Response_json aiData
         \<and> ai_recommendations aiData = Some recs
         \<and> map (\<lambda>r. Some (without_laptop r))
             (data_recommendations
                (primary_response (ex_gateway ai_empty_list scan_order) ex_body []))
             = map (map_option without_laptop) recs)"
proof -
  define w where "w = ex_gateway ai_empty_list scan_order"
  have h1: "reply (recommendations_post w (Some ex_request))
     = Sent (primary_response w ex_body [])"
    unfolding w_def by code_simp
  have h2: "primary_path w ex_database ex_body = Inr (recommendations_post w (Some ex_request))"
    unfolding w_def by code_simp
  have h3: "pool w = Some ex_database"
    by (simp add: w_def ex_gateway_def)
  have h4: "recommendationSchema_parse (Some ex_request) = Inr ex_body"
    by code_simp
  show ?thesis
    using note_marks_the_fallback[OF h1] h1 h2 h3 h4
    unfolding w_def by auto
qed

text \<open>
  C7 as stated fails: the response of the primary path for an empty list of the AI
  service has the properties \<open>success\<close>, \<open>recommendations\<close>, \<open>user_preferences\<close> and
  \<open>generated_at\<close>, no note and no entry, so nothing in it names its path.
\<close>

theorem primary_response_without_flag_counterexample:
  "reply (recommendations_post (ex_gateway ai_empty_list scan_order) (Some ex_request))
     = Sent \<lparr> success = True, data_recommendations = [],
              data_user_preferences = ex_preferences,
              data_generated_at = ''2026-01-01T00:00:00.000Z'', data_note = None \<rparr>"
  by code_simp

end
